theory Spec2Isabelle
  imports Complex_Main "HOL-Library.Multiset"
begin

section \<open>Data model\<close>

text \<open>
  The values the services exchange with the key-value store. Timestamps are kept as the
  number of milliseconds since the epoch: \<^verbatim>\<open>toISOString\<close> followed by
  \<^verbatim>\<open>new Date(...)\<close> gives the same instant back, so the ISO text is not
  modelled. Counters are JavaScript numbers holding integers; they are \<open>int\<close> here.
  A field of a challenge that may be \<open>undefined\<close> is an option, \<open>None\<close> standing for
  \<open>undefined\<close>.
\<close>

record completion =
  rec_id :: string
  rec_completedAt :: int

record preferences =
  difficulty :: string
  categories :: "string list"
  notifications :: "bool option"
  reminderTime :: "string option"

record user_data =
  user_id :: string
  name :: string
  joinDate :: int
  completedChallenges :: "completion list"
  currentStreak :: int
  totalChallenges :: int
  user_preferences :: preferences

text \<open>
  A value of the \<^verbatim>\<open>recentCategories\<close> object: a count, or the text that results when
  \<open>1\<close> is added to a value that is not a number.
\<close>

datatype tally = Count nat | Text string

record factors =
  timeOfDay :: nat
  dayOfWeek :: nat
  userDifficulty :: string
  recentCategories :: "(string \<times> tally) list"
  successRate :: rat

record challenge =
  challenge_id :: string
  title :: string
  description :: string
  category :: string
  challenge_type :: string
  challenge_difficulty :: string
  estimatedTime :: "nat option"
  effortLevel :: "nat option"
  complexity :: "nat option"
  createdAt :: int
  completed :: bool
  completedAt :: "int option"
  userNotes :: string
  aiGenerated :: bool
  personalizationFactors :: factors

text \<open>
  A JavaScript value as the services see it after \<^verbatim>\<open>JSON.parse\<close>: \<open>null\<close>, a
  boolean, or one of the three documents the application writes (a profile, a
  preferences object, an array of challenges).
\<close>

datatype jsval =
  VNull
  | VBool bool
  | VUser user_data
  | VPrefs preferences
  | VChallenges "challenge list"

text \<open>
  The text stored under a key: the JSON text of a value, the empty string, or text that
  \<^verbatim>\<open>JSON.parse\<close> rejects.
\<close>

datatype json_text = Json jsval | Empty_string | Malformed

datatype js_error = StorageError | SyntaxError | TypeError

fun truthy :: "jsval \<Rightarrow> bool" where
  "truthy VNull = False"
| "truthy (VBool b) = b"
| "truthy (VUser u) = True"
| "truthy (VPrefs p) = True"
| "truthy (VChallenges cs) = True"

fun JSON_parse :: "json_text \<Rightarrow> js_error + jsval" where
  "JSON_parse (Json v) = Inr v"
| "JSON_parse Empty_string = Inl SyntaxError"
| "JSON_parse Malformed = Inl SyntaxError"

definition JSON_stringify :: "jsval \<Rightarrow> json_text" where
  "JSON_stringify v = Json v"

section \<open>State, clock and the storage interface\<close>

text \<open>
  The mutable world of one application instance: the persisted items, the schedule of
  storage failures (\<open>faults s n\<close> says that the \<open>n\<close>-th storage call from now is
  rejected), the source of \<^verbatim>\<open>Math.random()\<close> values, and the two fields of the
  generator singleton.
\<close>

record state =
  items :: "string \<Rightarrow> json_text option"
  faults :: "nat \<Rightarrow> bool"
  random :: "nat \<Rightarrow> rat"
  userPreferences :: jsval
  challengeHistory :: jsval

text \<open>
  What the runtime provides: from \<^verbatim>\<open>Date\<close> the current instant and the local-time
  renderings the code asks for, and the text the engine gives for the value of a property
  that every object inherits (\<^verbatim>\<open>String(Object.prototype[key])\<close>). One reading of the
  clock serves a whole operation.
\<close>

record clock =
  now :: int
  toDateString :: "int \<Rightarrow> string"
  getHours :: "int \<Rightarrow> nat"
  getDay :: "int \<Rightarrow> nat"
  inheritedText :: "string \<Rightarrow> string"

type_synonym 'a comp = "state \<Rightarrow> (js_error + 'a) \<times> state"

definition ret :: "'a \<Rightarrow> 'a comp" where
  "ret x s = (Inr x, s)"

definition throw :: "js_error \<Rightarrow> 'a comp" where
  "throw e s = (Inl e, s)"

definition bnd :: "'a comp \<Rightarrow> ('a \<Rightarrow> 'b comp) \<Rightarrow> 'b comp" where
  "bnd m f s = (case m s of (Inl e, s') \<Rightarrow> (Inl e, s') | (Inr x, s') \<Rightarrow> f x s')"

definition try_catch :: "'a comp \<Rightarrow> (js_error \<Rightarrow> 'a comp) \<Rightarrow> 'a comp" where
  "try_catch m h s = (case m s of (Inl e, s') \<Rightarrow> h e s' | (Inr x, s') \<Rightarrow> (Inr x, s'))"

definition next_call :: "state \<Rightarrow> state" where
  "next_call s = s\<lparr>faults := (\<lambda>n. faults s (Suc n))\<rparr>"

definition getItem :: "string \<Rightarrow> json_text option comp" where
  "getItem key s =
     (if faults s 0 then (Inl StorageError, next_call s)
      else (Inr (items s key), next_call s))"

definition setItem :: "string \<Rightarrow> json_text \<Rightarrow> unit comp" where
  "setItem key text s =
     (if faults s 0 then (Inl StorageError, next_call s)
      else (Inr (), (next_call s)\<lparr>items := (items s)(key \<mapsto> text)\<rparr>))"

definition multiRemove :: "string list \<Rightarrow> unit comp" where
  "multiRemove keys s =
     (if faults s 0 then (Inl StorageError, next_call s)
      else (Inr (), (next_call s)\<lparr>items := (\<lambda>k. if k \<in> set keys then None else items s k)\<rparr>))"

text \<open>A string read from the store is truthy when it is present and not empty.\<close>

fun present :: "json_text option \<Rightarrow> bool" where
  "present None = False"
| "present (Some Empty_string) = False"
| "present (Some t) = True"

section \<open>storageService\<close>

definition saveUserData :: "jsval \<Rightarrow> bool comp" where
  "saveUserData userData =
     try_catch
       (bnd (setItem ''userData'' (JSON_stringify userData)) (\<lambda>_. ret True))
       (\<lambda>error. ret False)"

text \<open>The idiom \<^verbatim>\<open>text ? JSON.parse(text) : fallback\<close> on a string read from the store.\<close>

definition parse_or :: "json_text option \<Rightarrow> jsval \<Rightarrow> jsval comp" where
  "parse_or text fallback =
     (if present text
      then (case text of
              None \<Rightarrow> ret fallback
            | Some t \<Rightarrow> (case JSON_parse t of Inl e \<Rightarrow> throw e | Inr v \<Rightarrow> ret v))
      else ret fallback)"

definition loadUserData :: "jsval comp" where
  "loadUserData =
     try_catch
       (bnd (getItem ''userData'') (\<lambda>userData. parse_or userData VNull))
       (\<lambda>error. ret (VBool False))"

text \<open>
  The streak update of \<^verbatim>\<open>updateUserProgress\<close> on a profile object: the push, the
  increment and the comparison of the second-to-last record's day with yesterday and today.
\<close>

definition completeChallenge :: "clock \<Rightarrow> string \<Rightarrow> user_data \<Rightarrow> user_data" where
  "completeChallenge clk challengeId u =
     (let pushed = completedChallenges u @ [\<lparr>rec_id = challengeId, rec_completedAt = now clk\<rparr>];
          u1 = u\<lparr>completedChallenges := pushed, totalChallenges := totalChallenges u + 1\<rparr>;
          today = toDateString clk (now clk)
      in if 2 \<le> length pushed
         then (let lastCompleted = pushed ! (length pushed - 2);
                   lastDate = toDateString clk (rec_completedAt lastCompleted);
                   yesterday = toDateString clk (now clk - 24 * 60 * 60 * 1000)
               in if lastDate = yesterday then u1\<lparr>currentStreak := currentStreak u1 + 1\<rparr>
                  else if lastDate \<noteq> today then u1\<lparr>currentStreak := 1\<rparr>
                  else u1)
         else u1\<lparr>currentStreak := 1\<rparr>)"

definition updateUserProgress :: "clock \<Rightarrow> string \<Rightarrow> bool \<Rightarrow> bool comp" where
  "updateUserProgress clk challengeId completed_flag =
     try_catch
       (bnd loadUserData (\<lambda>userData.
          if \<not> truthy userData then ret False
          else bnd (if completed_flag
                    then (case userData of
                            VUser u \<Rightarrow> ret (VUser (completeChallenge clk challengeId u))
                          | _ \<Rightarrow> throw TypeError)
                    else ret userData) (\<lambda>userData'.
               bnd (saveUserData userData') (\<lambda>_. ret True))))
       (\<lambda>error. ret False)"

text \<open>
  \<^verbatim>\<open>[...history, ...challenges]\<close>: only an array can be spread; \<open>null\<close>, a boolean
  or a plain object raises a type error.
\<close>

definition spread :: "jsval \<Rightarrow> challenge list comp" where
  "spread v = (case v of VChallenges cs \<Rightarrow> ret cs | _ \<Rightarrow> throw TypeError)"

definition loadChallengeHistory :: "jsval comp" where
  "loadChallengeHistory =
     try_catch
       (bnd (getItem ''challengeHistory'') (\<lambda>history. parse_or history (VChallenges [])))
       (\<lambda>error. ret (VChallenges []))"

text \<open>\<^verbatim>\<open>updatedHistory.splice(0, updatedHistory.length - 100)\<close>, guarded by the length test.\<close>

definition keep_last_100 :: "challenge list \<Rightarrow> challenge list" where
  "keep_last_100 updatedHistory =
     (if length updatedHistory > 100
      then drop (length updatedHistory - 100) updatedHistory
      else updatedHistory)"

definition saveChallengeHistory :: "challenge list \<Rightarrow> bool comp" where
  "saveChallengeHistory challenges =
     try_catch
       (bnd loadChallengeHistory (\<lambda>history.
        bnd (spread history) (\<lambda>old.
        bnd (setItem ''challengeHistory''
               (JSON_stringify (VChallenges (keep_last_100 (old @ challenges))))) (\<lambda>_.
        ret True))))
       (\<lambda>error. ret False)"

definition markCompleted :: "clock \<Rightarrow> string \<Rightarrow> challenge \<Rightarrow> challenge" where
  "markCompleted clk challengeId c =
     (if challenge_id c = challengeId
      then c\<lparr>completed := True, completedAt := Some (now clk)\<rparr>
      else c)"

definition markChallengeCompleted :: "clock \<Rightarrow> string \<Rightarrow> bool comp" where
  "markChallengeCompleted clk challengeId =
     try_catch
       (bnd loadChallengeHistory (\<lambda>history.
        bnd (spread history) (\<lambda>old.
        bnd (setItem ''challengeHistory''
               (JSON_stringify (VChallenges (map (markCompleted clk challengeId) old)))) (\<lambda>_.
        bnd (updateUserProgress clk challengeId True) (\<lambda>_.
        ret True)))))
       (\<lambda>error. ret False)"

definition saveUserPreferences :: "jsval \<Rightarrow> bool comp" where
  "saveUserPreferences prefs =
     try_catch
       (bnd (setItem ''userPreferences'' (JSON_stringify prefs)) (\<lambda>_. ret True))
       (\<lambda>error. ret False)"

definition storage_default_preferences :: preferences where
  "storage_default_preferences =
     \<lparr>difficulty = ''medium'', categories = [''personal'', ''health'', ''learning''],
      notifications = Some True, reminderTime = Some ''09:00''\<rparr>"

definition loadUserPreferences :: "jsval comp" where
  "loadUserPreferences =
     try_catch
       (bnd (getItem ''userPreferences'') (\<lambda>prefs.
          parse_or prefs (VPrefs storage_default_preferences)))
       (\<lambda>error. ret VNull)"

definition clearAllData :: "bool comp" where
  "clearAllData =
     try_catch
       (bnd (multiRemove [''userData'', ''challengeHistory'', ''userPreferences'', ''dailyChallenges''])
          (\<lambda>_. ret True))
       (\<lambda>error. ret False)"

text \<open>The snapshot of \<^verbatim>\<open>exportUserData\<close>; \<open>None\<close> stands for the \<open>null\<close> of its catch branch.\<close>

record snapshot =
  export_userData :: jsval
  export_challengeHistory :: jsval
  export_preferences :: jsval
  exportDate :: int
  version :: string

definition exportUserData :: "clock \<Rightarrow> snapshot option comp" where
  "exportUserData clk =
     try_catch
       (bnd loadUserData (\<lambda>userData.
        bnd loadChallengeHistory (\<lambda>history.
        bnd loadUserPreferences (\<lambda>prefs.
        ret (Some \<lparr>export_userData = userData, export_challengeHistory = history,
                    export_preferences = prefs, exportDate = now clk, version = ''1.0.0''\<rparr>)))))
       (\<lambda>error. ret None)"

section \<open>aiService: the template corpus\<close>

text \<open>
  The tables of the service are object literals, and \<^verbatim>\<open>TABLE[key]\<close> on an object
  literal finds the literal's own property, else a property inherited from
  \<^verbatim>\<open>Object.prototype\<close> (a function, or for \<^verbatim>\<open>__proto__\<close> the prototype object),
  else \<open>undefined\<close>. An inherited value is truthy, and reading \<^verbatim>\<open>time\<close>,
  \<^verbatim>\<open>templates\<close> or an index of it gives \<open>undefined\<close>.
\<close>

datatype 'a property = Own 'a | Inherited | Undefined

definition Object_prototype_keys :: "string list" where
  "Object_prototype_keys =
     [''constructor'', ''hasOwnProperty'', ''isPrototypeOf'', ''propertyIsEnumerable'',
      ''toLocaleString'', ''toString'', ''valueOf'', ''__proto__'', ''__defineGetter__'',
      ''__defineSetter__'', ''__lookupGetter__'', ''__lookupSetter__'']"

definition inherited_or_undefined :: "string \<Rightarrow> 'a property" where
  "inherited_or_undefined key =
     (if key \<in> set Object_prototype_keys then Inherited else Undefined)"

fun own :: "'a property \<Rightarrow> bool" where
  "own (Own v) = True"
| "own Inherited = False"
| "own Undefined = False"

record template_group =
  group_type :: string
  templates :: "string list"

definition CHALLENGE_TEMPLATES :: "string \<Rightarrow> template_group list property" where
  "CHALLENGE_TEMPLATES key =
     (if key = ''personal'' then Own
        [\<lparr>group_type = ''reflection'', templates =
            [''Take 10 minutes to write about something you're grateful for today'',
             ''Reflect on a recent challenge and what you learned from it'',
             ''Write down three things you want to improve about yourself'']\<rparr>,
         \<lparr>group_type = ''connection'', templates =
            [''Reach out to someone you haven't talked to in a while'',
             ''Give a genuine compliment to three different people today'',
             ''Listen actively to someone without interrupting for 5 minutes'']\<rparr>]
      else if key = ''health'' then Own
        [\<lparr>group_type = ''physical'', templates =
            [''Do 20 push-ups or 10 minutes of stretching'',
             ''Take a 15-minute walk outside'',
             ''Drink 8 glasses of water today'',
             ''Try a new healthy recipe for dinner'']\<rparr>,
         \<lparr>group_type = ''mental'', templates =
            [''Practice deep breathing for 5 minutes'',
             ''Take a 10-minute break from all screens'',
             ''Do something that makes you laugh today'',
             ''Practice mindfulness while eating one meal'']\<rparr>]
      else if key = ''learning'' then Own
        [\<lparr>group_type = ''skill'', templates =
            [''Learn one new word in a language you're studying'',
             ''Watch a 10-minute educational video on a new topic'',
             ''Read 20 pages of a book you've been meaning to finish'',
             ''Practice a musical instrument for 15 minutes'']\<rparr>,
         \<lparr>group_type = ''knowledge'', templates =
            [''Research a topic you're curious about for 15 minutes'',
             ''Ask someone about their expertise or passion'',
             ''Try to solve a puzzle or brain teaser'',
             ''Learn about a historical event that happened on this date'']\<rparr>]
      else inherited_or_undefined key)"

record modifiers =
  time :: nat
  effort :: nat
  modifier_complexity :: nat

definition DIFFICULTY_MODIFIERS :: "string \<Rightarrow> modifiers property" where
  "DIFFICULTY_MODIFIERS key =
     (if key = ''easy'' then Own \<lparr>time = 5, effort = 1, modifier_complexity = 1\<rparr>
      else if key = ''medium'' then Own \<lparr>time = 15, effort = 2, modifier_complexity = 2\<rparr>
      else if key = ''hard'' then Own \<lparr>time = 30, effort = 3, modifier_complexity = 3\<rparr>
      else inherited_or_undefined key)"

section \<open>aiService: strings\<close>

text \<open>\<^verbatim>\<open>s.replace(pattern, replacement)\<close> with a string pattern: the first occurrence only.\<close>

fun replace_first :: "string \<Rightarrow> string \<Rightarrow> string \<Rightarrow> string" where
  "replace_first pattern replacement [] = (if pattern = [] then replacement else [])"
| "replace_first pattern replacement (c # cs) =
     (if take (length pattern) (c # cs) = pattern
      then replacement @ drop (length pattern) (c # cs)
      else c # replace_first pattern replacement cs)"

text \<open>\<^verbatim>\<open>s.split(' ')\<close> and \<^verbatim>\<open>words.join(' ')\<close>.\<close>

fun split_space :: "string \<Rightarrow> string list" where
  "split_space [] = [[]]"
| "split_space (c # cs) =
     (if c = CHR '' '' then [] # split_space cs
      else (case split_space cs of
              [] \<Rightarrow> [[c]]
            | w # ws \<Rightarrow> (c # w) # ws))"

fun join_space :: "string list \<Rightarrow> string" where
  "join_space [] = []"
| "join_space [w] = w"
| "join_space (w # ws) = w @ '' '' @ join_space ws"

text \<open>The decimal text of an integer, as a template literal renders a number.\<close>

fun decimal :: "nat \<Rightarrow> string" where
  "decimal n =
     (if n < 10 then [char_of (48 + n)]
      else decimal (n div 10) @ [char_of (48 + n mod 10)])"

declare decimal.simps [simp del]

definition number_text :: "int \<Rightarrow> string" where
  "number_text i = (if i < 0 then ''-'' @ decimal (nat (- i)) else decimal (nat i))"

section \<open>aiService: the generator\<close>

text \<open>The constructor: no preferences, an empty history.\<close>

definition constructor :: "state \<Rightarrow> state" where
  "constructor s = s\<lparr>userPreferences := VNull, challengeHistory := VChallenges []\<rparr>"

definition generator_default_preferences :: preferences where
  "generator_default_preferences =
     \<lparr>difficulty = ''medium'', categories = [''personal'', ''health'', ''learning''],
      notifications = None, reminderTime = None\<rparr>"

definition gen_loadUserPreferences :: "unit comp" where
  "gen_loadUserPreferences =
     try_catch
       (bnd (getItem ''userPreferences'') (\<lambda>prefs.
        bnd (parse_or prefs (VPrefs generator_default_preferences)) (\<lambda>v s.
        (Inr (), s\<lparr>userPreferences := v\<rparr>))))
       (\<lambda>error. ret ())"

definition gen_loadChallengeHistory :: "unit comp" where
  "gen_loadChallengeHistory =
     try_catch
       (bnd (getItem ''challengeHistory'') (\<lambda>history.
        bnd (parse_or history (VChallenges [])) (\<lambda>v s.
        (Inr (), s\<lparr>challengeHistory := v\<rparr>))))
       (\<lambda>error. ret ())"

definition initialize :: "unit comp" where
  "initialize = bnd gen_loadUserPreferences (\<lambda>_. gen_loadChallengeHistory)"

text \<open>
  \<^verbatim>\<open>Math.floor(Math.random() * n)\<close>: the next value of the random source, scaled and
  rounded down. \<^verbatim>\<open>Math.random()\<close> lies in \<open>[0, 1)\<close>.
\<close>

definition unit_interval :: "(nat \<Rightarrow> rat) \<Rightarrow> bool" where
  "unit_interval g = (\<forall>n. 0 \<le> g n \<and> g n < 1)"

definition random_index :: "(nat \<Rightarrow> rat) \<Rightarrow> nat \<Rightarrow> nat" where
  "random_index g n = nat \<lfloor>g 0 * of_nat n\<rfloor>"

definition advance :: "(nat \<Rightarrow> rat) \<Rightarrow> nat \<Rightarrow> rat" where
  "advance g = (\<lambda>n. g (Suc n))"

text \<open>\<^verbatim>\<open>xs[i]\<close>: \<open>undefined\<close> (here \<open>None\<close>) outside the array.\<close>

definition at_index :: "'a list \<Rightarrow> nat \<Rightarrow> 'a option" where
  "at_index xs i = (if i < length xs then Some (xs ! i) else None)"

text \<open>\<^verbatim>\<open>xs.splice(i, 1)\<close>: removes the element at \<open>i\<close>, nothing outside the array.\<close>

definition splice1 :: "nat \<Rightarrow> 'a list \<Rightarrow> 'a list" where
  "splice1 i xs = take i xs @ drop (Suc i) xs"

text \<open>The first loop of \<^verbatim>\<open>selectCategories\<close>: draws that remove what they pick.\<close>

function draw_distinct ::
  "string option list \<Rightarrow> string list \<Rightarrow> (nat \<Rightarrow> rat)
     \<Rightarrow> string option list \<times> string list \<times> (nat \<Rightarrow> rat)" where
  "draw_distinct selected cats g =
     (if length selected < 3 \<and> length cats > 0
      then (let randomIndex = random_index g (length cats)
            in draw_distinct (selected @ [at_index cats randomIndex])
                 (splice1 randomIndex cats) (advance g))
      else (selected, cats, g))"
  by pat_completeness auto
termination
  by (relation "measure (\<lambda>(selected, cats, g). 3 - length selected)") auto

text \<open>The second loop: draws from the whole configured array until three are selected.\<close>

function draw_repeat ::
  "string option list \<Rightarrow> string list \<Rightarrow> (nat \<Rightarrow> rat)
     \<Rightarrow> string option list \<times> (nat \<Rightarrow> rat)" where
  "draw_repeat selected availableCategories g =
     (if length selected < 3
      then draw_repeat
             (selected @ [at_index availableCategories (random_index g (length availableCategories))])
             availableCategories (advance g)
      else (selected, g))"
  by pat_completeness auto
termination
  by (relation "measure (\<lambda>(selected, available, g). 3 - length selected)") auto

declare draw_distinct.simps [simp del] draw_repeat.simps [simp del]

definition selectCategories ::
  "string list \<Rightarrow> (nat \<Rightarrow> rat) \<Rightarrow> string option list \<times> (nat \<Rightarrow> rat)" where
  "selectCategories availableCategories g =
     (case draw_distinct [] availableCategories g of
        (selected, cats, g1) \<Rightarrow>
          (case draw_repeat selected availableCategories g1 of
             (selected', g2) \<Rightarrow> (take 3 selected', g2)))"

text \<open>
  Reading a property of \<open>undefined\<close> raises a type error; so does reading the
  preferences' fields when no preferences object is loaded, and using the history as an
  array when it is not one. A value used as a property key is turned into text,
  \<open>undefined\<close> into \<^verbatim>\<open>'undefined'\<close>.
\<close>

definition property_key :: "string option \<Rightarrow> string" where
  "property_key v = (case v of None \<Rightarrow> ''undefined'' | Some key \<Rightarrow> key)"

definition defined :: "'a option \<Rightarrow> 'a comp" where
  "defined v = (case v of None \<Rightarrow> throw TypeError | Some x \<Rightarrow> ret x)"

definition the_preferences :: "preferences comp" where
  "the_preferences s =
     (case userPreferences s of VPrefs p \<Rightarrow> (Inr p, s) | _ \<Rightarrow> (Inl TypeError, s))"

definition the_history :: "challenge list comp" where
  "the_history s =
     (case challengeHistory s of VChallenges h \<Rightarrow> (Inr h, s) | _ \<Rightarrow> (Inl TypeError, s))"

definition draw :: "nat \<Rightarrow> nat comp" where
  "draw n s = (Inr (random_index (random s) n), s\<lparr>random := advance (random s)\<rparr>)"

text \<open>
  \<^verbatim>\<open>value.length\<close> as the bound of a random index, where the value is then indexed
  and the element's properties are read: the own array gives its length and its element;
  outside an own array the index found is discarded, since the element is
  \<open>undefined\<close> and reading a property of it is a type error, as is reading the length
  of \<open>undefined\<close>.
\<close>

definition property_length :: "'a list property \<Rightarrow> nat" where
  "property_length v = (case v of Own xs \<Rightarrow> length xs | Inherited \<Rightarrow> 0 | Undefined \<Rightarrow> 0)"

definition element_of :: "'a list property \<Rightarrow> nat \<Rightarrow> 'a comp" where
  "element_of v i =
     (case v of
        Own xs \<Rightarrow> defined (at_index xs i)
      | Inherited \<Rightarrow> throw TypeError
      | Undefined \<Rightarrow> throw TypeError)"

text \<open>
  \<^verbatim>\<open>value.field\<close> on the result of a table lookup: the field of an own entry,
  \<open>undefined\<close> on an inherited value, a type error on \<open>undefined\<close>.
\<close>

definition property_field :: "('a \<Rightarrow> 'b) \<Rightarrow> 'a property \<Rightarrow> 'b option comp" where
  "property_field field v =
     (case v of
        Own entry \<Rightarrow> ret (Some (field entry))
      | Inherited \<Rightarrow> ret None
      | Undefined \<Rightarrow> throw TypeError)"

definition personalizeChallenge :: "clock \<Rightarrow> string \<Rightarrow> string \<Rightarrow> string \<Rightarrow> string" where
  "personalizeChallenge clk template cat diff =
     (let hour = getHours clk (now clk);
          timed = (if hour < 12 then replace_first ''today'' ''this morning'' template
                   else if hour < 17 then replace_first ''today'' ''this afternoon'' template
                   else replace_first ''today'' ''this evening'' template)
      in if diff = ''easy''
         then replace_first ''20 push-ups'' ''10 push-ups''
                (replace_first ''15 minutes'' ''5 minutes'' timed)
         else if diff = ''hard''
         then replace_first ''10 push-ups'' ''30 push-ups''
                (replace_first ''5 minutes'' ''15 minutes'' timed)
         else timed)"

text \<open>
  The category emojis, as their UTF-8 bytes. \<^verbatim>\<open>categoryEmojis[category] || fallback\<close>
  takes the fallback only for \<open>undefined\<close>; an inherited value is truthy and the template
  literal renders its text.
\<close>

definition categoryEmojis :: "string \<Rightarrow> string property" where
  "categoryEmojis key =
     (if key = ''personal'' then Own [CHR 0xF0, CHR 0x9F, CHR 0x92, CHR 0xAD]
      else if key = ''health'' then Own [CHR 0xF0, CHR 0x9F, CHR 0x92, CHR 0xAA]
      else if key = ''learning'' then Own [CHR 0xF0, CHR 0x9F, CHR 0xA7, CHR 0xA0]
      else inherited_or_undefined key)"

definition generateTitle :: "clock \<Rightarrow> string \<Rightarrow> string \<Rightarrow> string" where
  "generateTitle clk text cat =
     (let emoji = (case categoryEmojis cat of
                     Own e \<Rightarrow> e
                   | Inherited \<Rightarrow> inheritedText clk cat
                   | Undefined \<Rightarrow> [CHR 0xE2, CHR 0x9C, CHR 0xA8]);
          words = join_space (take 4 (split_space text))
      in emoji @ '' '' @ words @ ''...'')"

text \<open>
  \<^verbatim>\<open>acc[category] = (acc[category] || 0) + 1\<close> on an object that starts as
  \<^verbatim>\<open>{}\<close>, kept as the association list of its own properties in insertion order (the
  engine's ordering of array-index keys is not modelled). An own property is increased, a
  text by appending \<^verbatim>\<open>'1'\<close>. A category that is not yet an own property counts from
  \<open>0\<close>, unless it names an inherited property: the inherited value is truthy and adding
  \<open>1\<close> gives its text followed by \<^verbatim>\<open>'1'\<close>; the assignment to \<^verbatim>\<open>__proto__\<close> with
  such a text has no effect. The success rate, a floating-point quotient in the source, is
  kept as the exact rational.
\<close>

fun add_one :: "tally \<Rightarrow> tally" where
  "add_one (Count n) = Count (n + 1)"
| "add_one (Text t) = Text (t @ ''1'')"

fun count_category ::
  "clock \<Rightarrow> (string \<times> tally) list \<Rightarrow> string \<Rightarrow> (string \<times> tally) list" where
  "count_category clk [] cat =
     (if cat = ''__proto__'' then []
      else if cat \<in> set Object_prototype_keys then [(cat, Text (inheritedText clk cat @ ''1''))]
      else [(cat, Count 1)])"
| "count_category clk ((k, v) # acc) cat =
     (if k = cat then (k, add_one v) # acc else (k, v) # count_category clk acc cat)"

definition getRecentCategories :: "clock \<Rightarrow> (string \<times> tally) list comp" where
  "getRecentCategories clk =
     bnd the_history (\<lambda>h.
       ret (foldl (\<lambda>acc c. count_category clk acc (category c)) [] (drop (length h - 10) h)))"

definition calculateSuccessRate :: "rat comp" where
  "calculateSuccessRate =
     bnd the_history (\<lambda>h.
       if length h = 0 then ret (8 / 10)
       else ret (of_nat (length (filter completed h)) / of_nat (length h)))"

definition getPersonalizationFactors :: "clock \<Rightarrow> factors comp" where
  "getPersonalizationFactors clk =
     bnd the_preferences (\<lambda>p.
     bnd (getRecentCategories clk) (\<lambda>recent.
     bnd calculateSuccessRate (\<lambda>rate.
     ret \<lparr>timeOfDay = getHours clk (now clk), dayOfWeek = getDay clk (now clk),
          userDifficulty = difficulty p, recentCategories = recent, successRate = rate\<rparr>)))"

text \<open>
  One challenge for a selected category. The first random value is drawn before the
  templates of the category are used, so also when the category has none; the record is
  built only for a category of the corpus.
\<close>

definition generateChallengeForCategory ::
  "clock \<Rightarrow> string option \<Rightarrow> nat \<Rightarrow> challenge comp" where
  "generateChallengeForCategory clk cat index =
     bnd (ret (property_key cat)) (\<lambda>cat.
     bnd (ret (CHALLENGE_TEMPLATES cat)) (\<lambda>tmpls.
     bnd (draw (property_length tmpls)) (\<lambda>i.
     bnd (element_of tmpls i) (\<lambda>templateGroup.
     bnd (draw (length (templates templateGroup))) (\<lambda>j.
     bnd the_preferences (\<lambda>p.
     bnd (ret (DIFFICULTY_MODIFIERS (difficulty p))) (\<lambda>mods.
     bnd (defined (at_index (templates templateGroup) j)) (\<lambda>template.
     bnd (ret (personalizeChallenge clk template cat (difficulty p))) (\<lambda>personalizedChallenge.
     bnd (property_field time mods) (\<lambda>modifiers_time.
     bnd (property_field effort mods) (\<lambda>modifiers_effort.
     bnd (property_field modifier_complexity mods) (\<lambda>modifiers_complexity.
     bnd (getPersonalizationFactors clk) (\<lambda>fs.
     ret \<lparr>challenge_id = ''challenge_'' @ number_text (now clk) @ ''_'' @ decimal index,
          title = generateTitle clk personalizedChallenge cat,
          description = personalizedChallenge,
          category = cat,
          challenge_type = group_type templateGroup,
          challenge_difficulty = difficulty p,
          estimatedTime = modifiers_time,
          effortLevel = modifiers_effort,
          complexity = modifiers_complexity,
          createdAt = now clk,
          completed = False,
          completedAt = None,
          userNotes = [],
          aiGenerated = True,
          personalizationFactors = fs\<rparr>)))))))))))))"

text \<open>The \<^verbatim>\<open>forEach\<close> of \<^verbatim>\<open>generateDailyChallenges\<close>, pushing one challenge per selected category.\<close>

fun forEach_category ::
  "clock \<Rightarrow> string option list \<Rightarrow> nat \<Rightarrow> challenge list \<Rightarrow> challenge list comp" where
  "forEach_category clk [] index challenges = ret challenges"
| "forEach_category clk (cat # rest) index challenges =
     bnd (generateChallengeForCategory clk cat index) (\<lambda>c.
       forEach_category clk rest (Suc index) (challenges @ [c]))"

definition select :: "string list \<Rightarrow> string option list comp" where
  "select availableCategories s =
     (case selectCategories availableCategories (random s) of
        (selected, g) \<Rightarrow> (Inr selected, s\<lparr>random := g\<rparr>))"

definition generateDailyChallenges :: "clock \<Rightarrow> challenge list comp" where
  "generateDailyChallenges clk =
     bnd the_preferences (\<lambda>p.
     bnd (select (categories p)) (\<lambda>selectedCategories.
     forEach_category clk selectedCategories 0 []))"

definition daily_key :: "clock \<Rightarrow> string" where
  "daily_key clk = ''dailyChallenges_'' @ toDateString clk (now clk)"

definition push_history :: "challenge list \<Rightarrow> jsval comp" where
  "push_history challenges =
     bnd the_history (\<lambda>h s.
       (Inr (VChallenges (h @ challenges)), s\<lparr>challengeHistory := VChallenges (h @ challenges)\<rparr>))"

definition saveChallenges :: "clock \<Rightarrow> challenge list \<Rightarrow> bool comp" where
  "saveChallenges clk challenges =
     try_catch
       (bnd (setItem (daily_key clk) (JSON_stringify (VChallenges challenges))) (\<lambda>_.
        bnd (push_history challenges) (\<lambda>history.
        bnd (setItem ''challengeHistory'' (JSON_stringify history)) (\<lambda>_.
        ret True))))
       (\<lambda>error. ret False)"

definition getTodaysChallenges :: "clock \<Rightarrow> jsval comp" where
  "getTodaysChallenges clk =
     try_catch
       (bnd (getItem (daily_key clk)) (\<lambda>challenges.
          if present challenges
          then parse_or challenges VNull
          else bnd (generateDailyChallenges clk) (\<lambda>newChallenges.
               bnd (saveChallenges clk newChallenges) (\<lambda>_.
               ret (VChallenges newChallenges)))))
       (\<lambda>error. ret (VChallenges []))"

definition initializeAIChallenges :: "unit comp" where
  "initializeAIChallenges = initialize"

section \<open>Predicates of the statements\<close>

text \<open>Two states that differ at most in the random source.\<close>

definition same_store :: "state \<Rightarrow> state \<Rightarrow> bool" where
  "same_store s t =
     (items t = items s \<and> faults t = faults s \<and> userPreferences t = userPreferences s \<and>
      challengeHistory t = challengeHistory s)"

text \<open>
  A challenge annotated from what the modifier table gives for the preferences'
  difficulty: the fields of an own entry, \<open>undefined\<close> fields for an inherited value.
\<close>

definition from_table :: "preferences \<Rightarrow> challenge \<Rightarrow> bool" where
  "from_table p c =
     (challenge_difficulty c = difficulty p \<and>
      (case DIFFICULTY_MODIFIERS (difficulty p) of
         Own m \<Rightarrow> estimatedTime c = Some (time m) \<and> effortLevel c = Some (effort m) \<and>
                  complexity c = Some (modifier_complexity m)
       | Inherited \<Rightarrow> estimatedTime c = None \<and> effortLevel c = None \<and> complexity c = None
       | Undefined \<Rightarrow> False))"

text \<open>
  Preferences on which generation goes through: a non-empty category array whose tags
  have templates in the corpus, and a difficulty for which the modifier lookup is not
  \<open>undefined\<close>.
\<close>

definition valid_preferences :: "preferences \<Rightarrow> bool" where
  "valid_preferences p =
     (categories p \<noteq> [] \<and> (\<forall>c \<in> set (categories p). own (CHALLENGE_TEMPLATES c)) \<and>
      DIFFICULTY_MODIFIERS (difficulty p) \<noteq> Undefined)"

text \<open>A state whose storage calls all succeed.\<close>

definition no_faults :: "state \<Rightarrow> bool" where
  "no_faults s = (\<forall>n. \<not> faults s n)"

section \<open>Sample inputs\<close>

text \<open>
  Concrete inputs on which the theorems below are instantiated. The sample clock stands at
  noon (UTC) of 1 January 2024; its day rendering is the UTC one on the three days around
  that date and a fixed text on every other day.
\<close>

definition sample_toDateString :: "int \<Rightarrow> string" where
  "sample_toDateString t =
     (let d = t div 86400000
      in if d = 19722 then ''Sun Dec 31 2023''
         else if d = 19723 then ''Mon Jan 01 2024''
         else if d = 19724 then ''Tue Jan 02 2024''
         else ''Thu Jan 01 1970'')"

definition sample_clock :: clock where
  "sample_clock =
     \<lparr>now = 1704110400000, toDateString = sample_toDateString,
      getHours = (\<lambda>t. nat ((t div 3600000) mod 24)),
      getDay = (\<lambda>t. nat ((t div 86400000 + 4) mod 7)),
      inheritedText = (\<lambda>key. if key = ''__proto__'' then ''[object Object]''
                              else ''function '' @ key @ ''() { [native code] }'')\<rparr>"

definition sample_user :: "completion list \<Rightarrow> user_data" where
  "sample_user done =
     \<lparr>user_id = ''1703000000000'', name = ''User'', joinDate = 1703000000000,
      completedChallenges = done, currentStreak = 4, totalChallenges = 7,
      user_preferences = generator_default_preferences\<rparr>"

definition fresh_state :: state where
  "fresh_state =
     \<lparr>items = Map.empty, faults = (\<lambda>n. False), random = (\<lambda>n. 0),
      userPreferences = VNull, challengeHistory = VChallenges []\<rparr>"

definition with_preferences :: "string \<Rightarrow> string list \<Rightarrow> state" where
  "with_preferences d cats =
     fresh_state\<lparr>userPreferences :=
       VPrefs \<lparr>difficulty = d, categories = cats, notifications = None, reminderTime = None\<rparr>\<rparr>"

definition sample_factors :: factors where
  "sample_factors =
     \<lparr>timeOfDay = 12, dayOfWeek = 1, userDifficulty = ''medium'', recentCategories = [],
      successRate = 8 / 10\<rparr>"

definition sample_challenge :: "nat \<Rightarrow> challenge" where
  "sample_challenge n =
     \<lparr>challenge_id = ''challenge_1700000000000_'' @ decimal n,
      title = ''Take a 15-minute walk...'',
      description = ''Take a 15-minute walk outside'',
      category = ''health'', challenge_type = ''physical'', challenge_difficulty = ''medium'',
      estimatedTime = Some 15, effortLevel = Some 2, complexity = Some 2,
      createdAt = 1700000000000,
      completed = False, completedAt = None, userNotes = [], aiGenerated = True,
      personalizationFactors = sample_factors\<rparr>"

definition with_items :: "(string \<times> json_text) list \<Rightarrow> state" where
  "with_items kvs = fresh_state\<lparr>items := map_of kvs\<rparr>"

text \<open>Storage whose next call fails, and storage whose every call fails.\<close>

definition first_call_fails :: state where
  "first_call_fails = fresh_state\<lparr>faults := (\<lambda>n. n = 0)\<rparr>"

definition storage_down :: state where
  "storage_down = fresh_state\<lparr>faults := (\<lambda>n. True)\<rparr>"

definition with_profile :: "user_data \<Rightarrow> state" where
  "with_profile u = fresh_state\<lparr>items := [''userData'' \<mapsto> Json (VUser u)]\<rparr>"

section \<open>Running the storage operations\<close>

lemmas comp_defs = ret_def throw_def bnd_def try_catch_def getItem_def setItem_def next_call_def
  parse_or_def JSON_stringify_def

lemma loadUserData_stored:
  "\<not> faults s 0 \<Longrightarrow> items s ''userData'' = Some (Json v) \<Longrightarrow>
   loadUserData s = (Inr v, next_call s)"
  by (simp add: loadUserData_def comp_defs)

lemma saveUserData_run:
  "saveUserData v s =
     (if faults s 0 then (Inr False, next_call s)
      else (Inr True, (next_call s)\<lparr>items := (items s)(''userData'' \<mapsto> Json v)\<rparr>))"
  by (simp add: saveUserData_def comp_defs)

lemma loadUserData_absent:
  "items s ''userData'' = None \<Longrightarrow> loadUserData s = (Inr (if faults s 0 then VBool False else VNull), next_call s)"
  by (simp add: loadUserData_def comp_defs)







lemmas sample_defs = sample_toDateString_def sample_clock_def sample_user_def fresh_state_def
  with_profile_def

section \<open>Running the generator\<close>

lemma bnd_eq_Inr:
  "bnd m f s = (Inr y, t) \<longleftrightarrow> (\<exists>x s'. m s = (Inr x, s') \<and> f x s' = (Inr y, t))"
  by (auto simp: bnd_def split: prod.splits sum.splits)

lemma ret_eq: "ret x s = (r, t) \<longleftrightarrow> r = Inr x \<and> t = s"
  by (auto simp: ret_def)

lemma defined_eq_Inr: "defined v s = (Inr x, t) \<longleftrightarrow> v = Some x \<and> t = s"
  by (auto simp: defined_def throw_def ret_def split: option.splits)

lemma the_preferences_eq_Inr:
  "the_preferences s = (Inr p, t) \<longleftrightarrow> userPreferences s = VPrefs p \<and> t = s"
  by (auto simp: the_preferences_def split: jsval.splits)

lemma the_history_eq_Inr:
  "the_history s = (Inr h, t) \<longleftrightarrow> challengeHistory s = VChallenges h \<and> t = s"
  by (auto simp: the_history_def split: jsval.splits)

lemma draw_eq:
  "draw n s = (r, t) \<longleftrightarrow>
     r = Inr (random_index (random s) n) \<and> t = s\<lparr>random := advance (random s)\<rparr>"
  by (auto simp: draw_def)

lemmas run_simps = bnd_eq_Inr ret_eq defined_eq_Inr the_preferences_eq_Inr the_history_eq_Inr draw_eq

lemma getRecentCategories_Inr:
  "getRecentCategories clk s = (Inr r, t) \<Longrightarrow> t = s"
  by (auto simp: getRecentCategories_def run_simps)

lemma calculateSuccessRate_Inr:
  "calculateSuccessRate s = (Inr r, t) \<Longrightarrow> t = s"
  by (auto simp: calculateSuccessRate_def run_simps split: if_splits)

lemma getPersonalizationFactors_Inr:
  "getPersonalizationFactors clk s = (Inr fs, t) \<Longrightarrow> t = s"
  by (auto simp: getPersonalizationFactors_def run_simps
      dest!: getRecentCategories_Inr calculateSuccessRate_Inr)

lemma element_of_eq_Inr:
  "element_of v i s = (Inr x, t) \<longleftrightarrow> (\<exists>xs. v = Own xs \<and> at_index xs i = Some x) \<and> t = s"
  by (cases v) (auto simp: element_of_def defined_eq_Inr throw_def)

lemma property_field_eq_Inr:
  "property_field field v s = (Inr x, t) \<longleftrightarrow>
     ((\<exists>entry. v = Own entry \<and> x = Some (field entry)) \<or> (v = Inherited \<and> x = None)) \<and> t = s"
  by (cases v) (auto simp: property_field_def ret_def throw_def)

lemma undefined_category_has_no_templates: "CHALLENGE_TEMPLATES ''undefined'' = Undefined"
  by (simp add: CHALLENGE_TEMPLATES_def inherited_or_undefined_def Object_prototype_keys_def)

lemma own_templates_category:
  "CHALLENGE_TEMPLATES (property_key cat) = Own groups \<Longrightarrow> cat = Some (property_key cat)"
  by (cases cat) (simp_all add: property_key_def undefined_category_has_no_templates)

lemma generateChallengeForCategory_Inr:
  assumes "generateChallengeForCategory clk cat index s = (Inr c, t)"
  shows "cat = Some (category c) \<and> same_store s t \<and>
    (\<exists>p. userPreferences s = VPrefs p \<and> from_table p c)"
  using assms unfolding generateChallengeForCategory_def
  apply (simp only: bnd_eq_Inr)
  apply (elim exE conjE)
  apply (simp only: defined_eq_Inr the_preferences_eq_Inr draw_eq ret_eq element_of_eq_Inr
      property_field_eq_Inr)
  apply (elim exE conjE)
  apply (drule getPersonalizationFactors_Inr)
  apply clarsimp
  apply (frule own_templates_category [OF sym])
  apply (auto simp: same_store_def from_table_def)
  done

lemma generateChallengeForCategory_Inr':
  assumes "generateChallengeForCategory clk cat index s = (Inr c, t)"
    and "userPreferences s = VPrefs p"
  shows "cat = Some (category c) \<and> same_store s t \<and> from_table p c"
  using generateChallengeForCategory_Inr [OF assms(1)] assms(2)
  by auto

lemma same_store_refl: "same_store s s"
  by (simp add: same_store_def)

lemma same_store_trans: "same_store s t \<Longrightarrow> same_store t u \<Longrightarrow> same_store s u"
  by (simp add: same_store_def)

lemma forEach_category_Inr:
  "forEach_category clk cats index acc s = (Inr cs, t) \<Longrightarrow> userPreferences s = VPrefs p \<Longrightarrow>
   same_store s t \<and>
   (\<exists>new. cs = acc @ new \<and> map (\<lambda>c. Some (category c)) new = cats \<and>
      (\<forall>c \<in> set new. from_table p c))"
proof (induction cats arbitrary: index acc s)
  case Nil
  then show ?case by (simp add: ret_eq same_store_refl)
next
  case (Cons cat rest)
  from Cons.prems(1) obtain c s' where
    step: "generateChallengeForCategory clk cat index s = (Inr c, s')" and
    more: "forEach_category clk rest (Suc index) (acc @ [c]) s' = (Inr cs, t)"
    unfolding forEach_category.simps bnd_eq_Inr by (elim exE conjE)
  from generateChallengeForCategory_Inr' [OF step Cons.prems(2)]
  have c: "cat = Some (category c)" "same_store s s'" "from_table p c"
    by simp_all
  then have "userPreferences s' = VPrefs p"
    using Cons.prems(2) by (simp add: same_store_def)
  from Cons.IH [OF more this] have
    st: "same_store s' t" and
    ex: "\<exists>new. cs = (acc @ [c]) @ new \<and> map (\<lambda>c. Some (category c)) new = rest \<and>
      (\<forall>c \<in> set new. from_table p c)"
    by simp_all
  from ex obtain new where
    new: "cs = (acc @ [c]) @ new" "map (\<lambda>c. Some (category c)) new = rest"
      "\<forall>c \<in> set new. from_table p c"
    by (elim exE conjE)
  have 1: "cs = acc @ (c # new)" using new(1) by simp
  have 2: "map (\<lambda>c. Some (category c)) (c # new) = cat # rest" using c(1) new(2) by simp
  have 3: "\<forall>d \<in> set (c # new). from_table p d" using c(3) new(3) by simp
  have 4: "same_store s t" using c(2) st by (rule same_store_trans)
  show ?case
    using 1 2 3 4 by (intro conjI exI [of _ "c # new"])
qed

lemma select_eq:
  "select cats s = (r, t) \<longleftrightarrow>
     r = Inr (fst (selectCategories cats (random s))) \<and>
     t = s\<lparr>random := snd (selectCategories cats (random s))\<rparr>"
  by (auto simp: select_def split: prod.splits)

lemma generateDailyChallenges_Inr:
  assumes "generateDailyChallenges clk s = (Inr cs, t)"
  shows "same_store s t \<and>
    (\<exists>p. userPreferences s = VPrefs p \<and>
       map (\<lambda>c. Some (category c)) cs = fst (selectCategories (categories p) (random s)) \<and>
       (\<forall>c \<in> set cs. from_table p c))"
proof -
  from assms obtain p s' where
    p: "userPreferences s = VPrefs p" and
    s': "s' = s\<lparr>random := snd (selectCategories (categories p) (random s))\<rparr>" and
    run: "forEach_category clk (fst (selectCategories (categories p) (random s))) 0 [] s' = (Inr cs, t)"
    by (auto simp: generateDailyChallenges_def bnd_eq_Inr the_preferences_eq_Inr select_eq)
  have "userPreferences s' = VPrefs p" using p s' by simp
  from forEach_category_Inr [OF run this]
  have "same_store s' t" "map (\<lambda>c. Some (category c)) cs = fst (selectCategories (categories p) (random s))"
    "\<forall>c \<in> set cs. from_table p c"
    by auto
  moreover have "same_store s s'" using s' by (simp add: same_store_def)
  ultimately show ?thesis
    using p same_store_trans by blast
qed

lemma random_index_less:
  assumes "unit_interval g" and "0 < n"
  shows "random_index g n < n"
proof -
  have g: "0 \<le> g 0" "g 0 < 1"
    using assms(1) by (simp_all add: unit_interval_def)
  have "g 0 * of_nat n < of_nat n"
    using g(2) assms(2) by simp
  then have "\<lfloor>g 0 * of_nat n\<rfloor> < int n"
    by (simp add: floor_less_iff)
  moreover have "0 \<le> \<lfloor>g 0 * of_nat n\<rfloor>"
    using g(1) by simp
  ultimately show ?thesis
    unfolding random_index_def by linarith
qed

lemma unit_interval_advance: "unit_interval g \<Longrightarrow> unit_interval (advance g)"
  by (simp add: unit_interval_def advance_def)

lemma mset_splice1:
  "i < length xs \<Longrightarrow> add_mset (xs ! i) (mset (splice1 i xs)) = mset xs"
proof -
  assume "i < length xs"
  then have "xs = take i xs @ xs ! i # drop (Suc i) xs"
    by (rule id_take_nth_drop)
  then have "mset xs = mset (take i xs @ xs ! i # drop (Suc i) xs)"
    by simp
  then show ?thesis
    by (simp add: splice1_def)
qed

lemma length_splice1: "i < length xs \<Longrightarrow> Suc (length (splice1 i xs)) = length xs"
  by (simp add: splice1_def)

lemma draw_distinct_inv:
  "unit_interval g \<Longrightarrow> length selected \<le> 3 \<Longrightarrow>
   draw_distinct selected cats g = (sel', cats', g') \<Longrightarrow>
   unit_interval g' \<and>
   mset (sel' @ map Some cats') = mset (selected @ map Some cats) \<and>
   length sel' = min 3 (length selected + length cats) \<and>
   take (length selected) sel' = selected"
proof (induction selected cats g rule: draw_distinct.induct)
  case (1 selected cats g)
  show ?case
  proof (cases "length selected < 3 \<and> length cats > 0")
    case False
    then have "draw_distinct selected cats g = (selected, cats, g)"
      by (subst draw_distinct.simps) (simp only: False if_False)
    then show ?thesis
      using "1.prems" False by auto
  next
    case True
    let ?i = "random_index g (length cats)"
    have i: "?i < length cats"
      using "1.prems"(1) True by (simp add: random_index_less)
    have at: "at_index cats ?i = Some (cats ! ?i)"
      using i by (simp add: at_index_def)
    have rec: "draw_distinct (selected @ [Some (cats ! ?i)]) (splice1 ?i cats) (advance g) = (sel', cats', g')"
      using "1.prems"(3) True at by (subst (asm) draw_distinct.simps) (simp add: Let_def)
    have IH: "unit_interval g' \<and>
      mset (sel' @ map Some cats') = mset ((selected @ [Some (cats ! ?i)]) @ map Some (splice1 ?i cats)) \<and>
      length sel' = min 3 (length (selected @ [Some (cats ! ?i)]) + length (splice1 ?i cats)) \<and>
      take (length (selected @ [Some (cats ! ?i)])) sel' = selected @ [Some (cats ! ?i)]"
      using "1.IH" [OF True refl] "1.prems"(1) True rec at
      by (simp add: unit_interval_advance)
    have m: "mset ((selected @ [Some (cats ! ?i)]) @ map Some (splice1 ?i cats)) =
        mset (selected @ map Some cats)"
      using mset_splice1 [OF i, symmetric] by simp
    have l: "length (selected @ [Some (cats ! ?i)]) + length (splice1 ?i cats) = length selected + length cats"
      using length_splice1 [OF i] by simp
    have t: "take (length selected) sel' = selected"
    proof -
      have "take (length selected) sel' =
          take (length selected) (take (length (selected @ [Some (cats ! ?i)])) sel')"
        by (simp add: min_def)
      also have "\<dots> = take (length selected) (selected @ [Some (cats ! ?i)])"
        using IH by simp
      also have "\<dots> = selected"
        by simp
      finally show ?thesis .
    qed
    show ?thesis
      using IH m l t by simp
  qed
qed

lemma draw_repeat_inv:
  "unit_interval g \<Longrightarrow> available \<noteq> [] \<Longrightarrow> length selected \<le> 3 \<Longrightarrow>
   draw_repeat selected available g = (sel', g') \<Longrightarrow>
   unit_interval g' \<and> length sel' = 3 \<and>
   (\<exists>extra. sel' = selected @ extra \<and> set extra \<subseteq> Some ` set available)"
proof (induction selected available g rule: draw_repeat.induct)
  case (1 selected available g)
  show ?case
  proof (cases "length selected < 3")
    case False
    then have "draw_repeat selected available g = (selected, g)"
      by (subst draw_repeat.simps) (simp only: False if_False)
    then show ?thesis
      using "1.prems" False by auto
  next
    case True
    let ?i = "random_index g (length available)"
    have i: "?i < length available"
      using "1.prems"(1,2) by (simp add: random_index_less)
    have at: "at_index available ?i = Some (available ! ?i)"
      using i by (simp add: at_index_def)
    have rec: "draw_repeat (selected @ [Some (available ! ?i)]) available (advance g) = (sel', g')"
      using "1.prems"(4) True at by (subst (asm) draw_repeat.simps) simp
    have "unit_interval g' \<and> length sel' = 3 \<and>
      (\<exists>extra. sel' = (selected @ [Some (available ! ?i)]) @ extra \<and> set extra \<subseteq> Some ` set available)"
      using "1.IH" [OF True] "1.prems"(1,2) True rec at
      by (simp add: unit_interval_advance)
    then obtain extra where
      e: "unit_interval g'" "length sel' = 3" "sel' = (selected @ [Some (available ! ?i)]) @ extra"
        "set extra \<subseteq> Some ` set available"
      by (elim exE conjE)
    have "sel' = selected @ (Some (available ! ?i) # extra)"
      using e(3) by simp
    moreover have "set (Some (available ! ?i) # extra) \<subseteq> Some ` set available"
      using e(4) i by simp
    ultimately show ?thesis
      using e(1,2) by (intro conjI exI [of _ "Some (available ! ?i) # extra"])
  qed
qed

lemma selectCategories_props:
  assumes ui: "unit_interval g" and ne: "cats \<noteq> []"
  shows "length (fst (selectCategories cats g)) = 3"
    and "set (fst (selectCategories cats g)) \<subseteq> Some ` set cats"
    and "unit_interval (snd (selectCategories cats g))"
    and "distinct cats \<Longrightarrow> distinct (take (min 3 (length cats)) (fst (selectCategories cats g)))"
    and "distinct cats \<Longrightarrow> length cats \<le> 3 \<Longrightarrow>
         set (take (length cats) (fst (selectCategories cats g))) = Some ` set cats"
proof -
  obtain sel1 cats1 g1 where d: "draw_distinct [] cats g = (sel1, cats1, g1)"
    by (cases "draw_distinct [] cats g") auto
  obtain sel2 g2 where r: "draw_repeat sel1 cats g1 = (sel2, g2)"
    by (cases "draw_repeat sel1 cats g1") auto
  from draw_distinct_inv [OF ui _ d]
  have 1: "unit_interval g1" "mset (sel1 @ map Some cats1) = mset (map Some cats)"
    "length sel1 = min 3 (length cats)"
    by simp_all
  from draw_repeat_inv [OF 1(1) ne _ r] 1(3)
  obtain extra where 2: "unit_interval g2" "length sel2 = 3" "sel2 = sel1 @ extra"
    "set extra \<subseteq> Some ` set cats"
    by auto
  have sc: "selectCategories cats g = (sel2, g2)"
    using d r 2(2) by (simp add: selectCategories_def)
  have set1: "set sel1 \<union> Some ` set cats1 = Some ` set cats"
    using mset_eq_setD [OF 1(2)] by simp
  show "length (fst (selectCategories cats g)) = 3"
    using sc 2(2) by simp
  show "set (fst (selectCategories cats g)) \<subseteq> Some ` set cats"
    using sc 2(3,4) set1 by auto
  show "unit_interval (snd (selectCategories cats g))"
    using sc 2(1) by simp
  have tk: "take (min 3 (length cats)) sel2 = sel1"
    using 2(3) 1(3) by simp
  {
    assume dc: "distinct cats"
    then have "distinct (map Some cats)"
      by (simp add: distinct_map)
    then have "distinct (sel1 @ map Some cats1)"
      using mset_eq_imp_distinct_iff [OF 1(2)] by simp
    then have ds: "distinct sel1"
      by simp
    then show "distinct (take (min 3 (length cats)) (fst (selectCategories cats g)))"
      using sc tk by simp
    assume le: "length cats \<le> 3"
    have "length (sel1 @ map Some cats1) = length (map Some cats)"
      using 1(2) by (rule mset_eq_length)
    then have "cats1 = []"
      using 1(3) le by simp
    then have "set sel1 = Some ` set cats"
      using set1 by simp
    moreover have "take (length cats) sel2 = sel1"
      using tk le by (simp add: min_def)
    ultimately show "set (take (length cats) (fst (selectCategories cats g))) = Some ` set cats"
      using sc by simp
  }
qed

lemma corpus_nonempty:
  "CHALLENGE_TEMPLATES cat = Own tmpls \<Longrightarrow>
   tmpls \<noteq> [] \<and> (\<forall>tg \<in> set tmpls. templates tg \<noteq> [])"
  by (auto simp: CHALLENGE_TEMPLATES_def inherited_or_undefined_def split: if_splits)

lemma property_field_succeeds:
  "v \<noteq> Undefined \<Longrightarrow> \<exists>x. property_field field v s = (Inr x, s)"
  by (cases v) (simp_all add: property_field_def ret_def)

lemma getPersonalizationFactors_succeeds:
  "userPreferences s = VPrefs p \<Longrightarrow> challengeHistory s = VChallenges h \<Longrightarrow>
   \<exists>fs. getPersonalizationFactors clk s = (Inr fs, s)"
  by (simp add: getPersonalizationFactors_def getRecentCategories_def calculateSuccessRate_def
      bnd_def ret_def the_preferences_def the_history_def)

lemma generateChallengeForCategory_succeeds:
  assumes ui: "unit_interval (random s)" and p: "userPreferences s = VPrefs p"
    and h: "challengeHistory s = VChallenges h"
    and m: "DIFFICULTY_MODIFIERS (difficulty p) \<noteq> Undefined"
    and tm: "CHALLENGE_TEMPLATES cat = Own tmpls"
  shows "\<exists>c t. generateChallengeForCategory clk (Some cat) index s = (Inr c, t) \<and>
    unit_interval (random t) \<and> challengeHistory t = VChallenges h"
proof -
  let ?i = "random_index (random s) (length tmpls)"
  let ?s1 = "s\<lparr>random := advance (random s)\<rparr>"
  let ?j = "random_index (random ?s1) (length (templates (tmpls ! ?i)))"
  let ?s2 = "?s1\<lparr>random := advance (random ?s1)\<rparr>"
  have i: "?i < length tmpls"
    using ui corpus_nonempty [OF tm] by (simp add: random_index_less)
  then have "templates (tmpls ! ?i) \<noteq> []"
    using corpus_nonempty [OF tm] by simp
  moreover have ui1: "unit_interval (random ?s1)"
    using ui by (simp add: unit_interval_advance)
  ultimately have j: "?j < length (templates (tmpls ! ?i))"
    by (simp add: random_index_less)
  have ui2: "unit_interval (random ?s2)"
    using ui1 by (simp add: unit_interval_advance)
  obtain fs where fs: "getPersonalizationFactors clk ?s2 = (Inr fs, ?s2)"
    using getPersonalizationFactors_succeeds [of ?s2 p h clk] p h by auto
  obtain x y z where
    x: "property_field time (DIFFICULTY_MODIFIERS (difficulty p)) ?s2 = (Inr x, ?s2)" and
    y: "property_field effort (DIFFICULTY_MODIFIERS (difficulty p)) ?s2 = (Inr y, ?s2)" and
    z: "property_field modifier_complexity (DIFFICULTY_MODIFIERS (difficulty p)) ?s2 = (Inr z, ?s2)"
    using property_field_succeeds [OF m, of time ?s2] property_field_succeeds [OF m, of effort ?s2]
      property_field_succeeds [OF m, of modifier_complexity ?s2]
    by (elim exE)
  have "\<exists>c. generateChallengeForCategory clk (Some cat) index s = (Inr c, ?s2)"
    using i j fs p tm x y z
    by (simp add: generateChallengeForCategory_def bnd_def ret_def defined_def draw_def
        the_preferences_def at_index_def property_key_def property_length_def element_of_def)
  then show ?thesis
    using ui2 h by auto
qed

lemma forEach_category_succeeds:
  "unit_interval (random s) \<Longrightarrow> userPreferences s = VPrefs p \<Longrightarrow>
   challengeHistory s = VChallenges h \<Longrightarrow> DIFFICULTY_MODIFIERS (difficulty p) \<noteq> Undefined \<Longrightarrow>
   \<forall>cat \<in> set cats. \<exists>c. cat = Some c \<and> own (CHALLENGE_TEMPLATES c) \<Longrightarrow>
   \<exists>cs t. forEach_category clk cats index acc s = (Inr cs, t)"
proof (induction cats arbitrary: index acc s)
  case Nil
  then show ?case by (simp add: ret_def)
next
  case (Cons cat rest)
  from Cons.prems(5) obtain c where c: "cat = Some c" "own (CHALLENGE_TEMPLATES c)"
    by auto
  then obtain tmpls where cat: "cat = Some c" "CHALLENGE_TEMPLATES c = Own tmpls"
    by (cases "CHALLENGE_TEMPLATES c") simp_all
  from generateChallengeForCategory_succeeds [OF Cons.prems(1,2,3,4) cat(2), of clk index]
  obtain ch s' where
    step: "generateChallengeForCategory clk (Some c) index s = (Inr ch, s')" and
    ui: "unit_interval (random s')" and h: "challengeHistory s' = VChallenges h"
    by blast
  have "same_store s s'"
    using generateChallengeForCategory_Inr [OF step] by simp
  then have p: "userPreferences s' = VPrefs p"
    using Cons.prems(2) by (simp add: same_store_def)
  have rest: "\<forall>cat \<in> set rest. \<exists>c. cat = Some c \<and> own (CHALLENGE_TEMPLATES c)"
    using Cons.prems(5) by simp
  from Cons.IH [OF ui p h Cons.prems(4) rest, of "Suc index" "acc @ [ch]"]
  obtain cs t where "forEach_category clk rest (Suc index) (acc @ [ch]) s' = (Inr cs, t)"
    by blast
  then have "forEach_category clk (cat # rest) index acc s = (Inr cs, t)"
    using step cat(1) by (simp add: bnd_def)
  then show ?case by blast
qed

lemma generateDailyChallenges_succeeds:
  assumes ui: "unit_interval (random s)" and p: "userPreferences s = VPrefs p"
    and h: "challengeHistory s = VChallenges h" and v: "valid_preferences p"
  shows "\<exists>cs t. generateDailyChallenges clk s = (Inr cs, t)"
proof -
  let ?sel = "fst (selectCategories (categories p) (random s))"
  let ?s1 = "s\<lparr>random := snd (selectCategories (categories p) (random s))\<rparr>"
  have ne: "categories p \<noteq> []" and known: "\<forall>c \<in> set (categories p). own (CHALLENGE_TEMPLATES c)"
    and m: "DIFFICULTY_MODIFIERS (difficulty p) \<noteq> Undefined"
    using v by (simp_all add: valid_preferences_def)
  have sub: "set ?sel \<subseteq> Some ` set (categories p)"
    using ui ne by (rule selectCategories_props(2))
  have all: "\<forall>cat \<in> set ?sel. \<exists>c. cat = Some c \<and> own (CHALLENGE_TEMPLATES c)"
    using sub known by auto
  have ui1: "unit_interval (random ?s1)"
    using selectCategories_props(3) [OF ui ne] by simp
  have p1: "userPreferences ?s1 = VPrefs p" and h1: "challengeHistory ?s1 = VChallenges h"
    using p h by simp_all
  from forEach_category_succeeds [OF ui1 p1 h1 m all, of clk 0 "[]"]
  obtain cs t where "forEach_category clk ?sel 0 [] ?s1 = (Inr cs, t)"
    by blast
  then have "generateDailyChallenges clk s = (Inr cs, t)"
    using p by (auto simp: generateDailyChallenges_def bnd_def the_preferences_def select_def
        split: prod.splits)
  then show ?thesis by blast
qed

section \<open>Challenge generator\<close>

lemma generateDailyChallenges_result:
  assumes "unit_interval (random s)" and "userPreferences s = VPrefs p" and "categories p \<noteq> []"
    and "fst (generateDailyChallenges clk s) = Inr cs"
  shows "length cs = 3"
    and "map (\<lambda>c. Some (category c)) cs = fst (selectCategories (categories p) (random s))"
    and "\<forall>c \<in> set cs. from_table p c"
proof -
  from assms(4) obtain t where "generateDailyChallenges clk s = (Inr cs, t)"
    by (cases "generateDailyChallenges clk s") simp
  from generateDailyChallenges_Inr [OF this] assms(2)
  show m: "map (\<lambda>c. Some (category c)) cs = fst (selectCategories (categories p) (random s))"
    and "\<forall>c \<in> set cs. from_table p c"
    by auto
  have "length (fst (selectCategories (categories p) (random s))) = 3"
    using assms(1,3) by (rule selectCategories_props(1))
  then show "length cs = 3"
    using m [symmetric] by simp
qed

lemma generateDailyChallenges_table:
  assumes "userPreferences s = VPrefs p" and "fst (generateDailyChallenges clk s) = Inr cs"
  shows "\<forall>c \<in> set cs. from_table p c"
proof -
  from assms(2) obtain t where "generateDailyChallenges clk s = (Inr cs, t)"
    by (cases "generateDailyChallenges clk s") simp
  from generateDailyChallenges_Inr [OF this] assms(1) show ?thesis
    by auto
qed

lemma generateDailyChallenges_returns:
  assumes "unit_interval (random s)" and "userPreferences s = VPrefs p"
    and "valid_preferences p" and "\<exists>h. challengeHistory s = VChallenges h"
  shows "\<exists>cs. fst (generateDailyChallenges clk s) = Inr cs"
proof -
  obtain h where "challengeHistory s = VChallenges h"
    using assms(4) by (elim exE)
  then have "\<exists>cs t. generateDailyChallenges clk s = (Inr cs, t)"
    using generateDailyChallenges_succeeds [OF assms(1,2) _ assms(3)] by simp
  then obtain cs t where "generateDailyChallenges clk s = (Inr cs, t)"
    by (elim exE)
  then have "fst (generateDailyChallenges clk s) = Inr cs"
    by simp
  then show ?thesis ..
qed

lemma from_table_values:
  assumes "from_table p c"
  shows "(difficulty p = ''easy'' \<longrightarrow>
            estimatedTime c = Some 5 \<and> effortLevel c = Some 1 \<and> complexity c = Some 1) \<and>
         (difficulty p = ''medium'' \<longrightarrow>
            estimatedTime c = Some 15 \<and> effortLevel c = Some 2 \<and> complexity c = Some 2) \<and>
         (difficulty p = ''hard'' \<longrightarrow>
            estimatedTime c = Some 30 \<and> effortLevel c = Some 3 \<and> complexity c = Some 3)"
  using assms by (auto simp: from_table_def DIFFICULTY_MODIFIERS_def)

lemma from_table_cases:
  assumes "from_table p c"
  shows "(\<forall>m. DIFFICULTY_MODIFIERS (difficulty p) = Own m \<longrightarrow>
            estimatedTime c = Some (time m) \<and> effortLevel c = Some (effort m) \<and>
            complexity c = Some (modifier_complexity m)) \<and>
         (DIFFICULTY_MODIFIERS (difficulty p) = Inherited \<longrightarrow>
            estimatedTime c = None \<and> effortLevel c = None \<and> complexity c = None) \<and>
         DIFFICULTY_MODIFIERS (difficulty p) \<noteq> Undefined"
  using assms by (cases "DIFFICULTY_MODIFIERS (difficulty p)") (simp_all add: from_table_def)

lemma distinct_map_Some: "distinct (map Some xs) \<Longrightarrow> distinct xs"
  by (simp add: distinct_map)

lemmas pref_defs = with_preferences_def fresh_state_def unit_interval_def DIFFICULTY_MODIFIERS_def
  valid_preferences_def CHALLENGE_TEMPLATES_def inherited_or_undefined_def Object_prototype_keys_def

text \<open>
  Claim C4. With a random source in \<open>[0, 1)\<close> and a non-empty configured category
  array, every challenge that \<^verbatim>\<open>generateDailyChallenges\<close> returns has a category
  that is an element of the configured array. With \<^verbatim>\<open>categories = ['health']\<close>, a
  difficulty for which the modifier lookup is not \<open>undefined\<close> and an array as history,
  it returns three challenges, all of category \<^verbatim>\<open>'health'\<close>.
\<close>

theorem generateDailyChallenges_categories_configured:
  assumes "unit_interval (random s)" and "userPreferences s = VPrefs p" and "categories p \<noteq> []"
  shows "(\<forall>cs. fst (generateDailyChallenges clk s) = Inr cs \<longrightarrow>
            (\<forall>c \<in> set cs. category c \<in> set (categories p))) \<and>
         (categories p = [''health''] \<and> DIFFICULTY_MODIFIERS (difficulty p) \<noteq> Undefined \<and>
          (\<exists>h. challengeHistory s = VChallenges h) \<longrightarrow>
            (\<exists>cs. fst (generateDailyChallenges clk s) = Inr cs \<and> length cs = 3 \<and>
               (\<forall>c \<in> set cs. category c = ''health'')))"
proof -
  have sub: "set (fst (selectCategories (categories p) (random s))) \<subseteq> Some ` set (categories p)"
    using assms(1,3) by (rule selectCategories_props(2))
  have len: "length (fst (selectCategories (categories p) (random s))) = 3"
    using assms(1,3) by (rule selectCategories_props(1))
  have result: "length cs = 3 \<and> (\<forall>c \<in> set cs. category c \<in> set (categories p))"
    if "fst (generateDailyChallenges clk s) = Inr cs" for cs
  proof -
    from that obtain t where "generateDailyChallenges clk s = (Inr cs, t)"
      by (cases "generateDailyChallenges clk s") simp
    from generateDailyChallenges_Inr [OF this] assms(2)
    have m: "map (\<lambda>c. Some (category c)) cs = fst (selectCategories (categories p) (random s))"
      by auto
    have "length cs = 3"
      using len m [symmetric] by simp
    moreover have "\<forall>c \<in> set cs. category c \<in> set (categories p)"
    proof
      fix c assume "c \<in> set cs"
      then have "Some (category c) \<in> set (map (\<lambda>c. Some (category c)) cs)"
        by simp
      then show "category c \<in> set (categories p)"
        using sub m by auto
    qed
    ultimately show ?thesis by simp
  qed
  have health: "\<exists>cs. fst (generateDailyChallenges clk s) = Inr cs \<and> length cs = 3 \<and>
               (\<forall>c \<in> set cs. category c = ''health'')"
    if h: "categories p = [''health'']" "DIFFICULTY_MODIFIERS (difficulty p) \<noteq> Undefined"
      "\<exists>h. challengeHistory s = VChallenges h"
  proof -
    have "valid_preferences p"
      using h(1,2) by (simp add: valid_preferences_def CHALLENGE_TEMPLATES_def)
    moreover obtain h where "challengeHistory s = VChallenges h"
      using h(3) by (elim exE)
    ultimately have "\<exists>cs t. generateDailyChallenges clk s = (Inr cs, t)"
      using generateDailyChallenges_succeeds [OF assms(1,2), of h clk] by simp
    then obtain cs t where "generateDailyChallenges clk s = (Inr cs, t)"
      by (elim exE)
    then have f: "fst (generateDailyChallenges clk s) = Inr cs"
      by simp
    from result [OF f] h(1) show ?thesis
      using f by auto
  qed
  show ?thesis
  proof (intro conjI allI impI)
    fix cs assume "fst (generateDailyChallenges clk s) = Inr cs"
    then show "\<forall>c \<in> set cs. category c \<in> set (categories p)"
      using result by simp
  next
    assume "categories p = [''health''] \<and> DIFFICULTY_MODIFIERS (difficulty p) \<noteq> Undefined \<and>
          (\<exists>h. challengeHistory s = VChallenges h)"
    then show "\<exists>cs. fst (generateDailyChallenges clk s) = Inr cs \<and> length cs = 3 \<and>
               (\<forall>c \<in> set cs. category c = ''health'')"
      using health by simp
  qed
qed

theorem generateDailyChallenges_categories_configured_witness:
  "unit_interval (random (with_preferences ''easy'' [''health''])) \<and>
   userPreferences (with_preferences ''easy'' [''health'']) =
     VPrefs \<lparr>difficulty = ''easy'', categories = [''health''], notifications = None, reminderTime = None\<rparr> \<and>
   (\<exists>cs. fst (generateDailyChallenges sample_clock (with_preferences ''easy'' [''health''])) = Inr cs \<and>
      length cs = 3 \<and> (\<forall>c \<in> set cs. category c = ''health''))"
  using generateDailyChallenges_categories_configured [of "with_preferences ''easy'' [''health'']"
      "\<lparr>difficulty = ''easy'', categories = [''health''], notifications = None, reminderTime = None\<rparr>"
      sample_clock]
  by (simp add: with_preferences_def fresh_state_def unit_interval_def DIFFICULTY_MODIFIERS_def)

text \<open>
  Claim C5, as stated, fails where generation has nothing to draw from. A configured
  category without templates in the corpus makes \<^verbatim>\<open>generateChallengeForCategory\<close>
  read the length of \<open>undefined\<close>, and a difficulty for which the modifier lookup is
  \<open>undefined\<close> makes it read \<^verbatim>\<open>time\<close> of \<open>undefined\<close>: in both cases
  \<^verbatim>\<open>generateDailyChallenges\<close> raises a type error and returns no challenges.
\<close>

theorem generateDailyChallenges_throws_outside_tables:
  "fst (generateDailyChallenges sample_clock (with_preferences ''medium'' [''fitness''])) =
     Inl TypeError \<and>
   fst (generateDailyChallenges sample_clock (with_preferences ''extreme'' [''health''])) =
     Inl TypeError"
  by (simp add: generateDailyChallenges_def the_preferences_def select_def selectCategories_def
      draw_distinct.simps draw_repeat.simps generateChallengeForCategory_def
      bnd_def ret_def throw_def draw_def defined_def at_index_def splice1_def random_index_def
      advance_def property_key_def property_length_def element_of_def property_field_def
      pref_defs Let_def)

text \<open>
  Claim C5, amended. With a random source in \<open>[0, 1)\<close> and a non-empty configured array
  of distinct categories, \<^verbatim>\<open>selectCategories\<close> selects exactly three categories, all of
  them configured ones. The first \<open>min 3 n\<close> selections (\<open>n\<close> the number configured)
  are pairwise distinct: the draws are without replacement while categories remain. With at
  least three configured the three selections are pairwise distinct; with fewer than three
  every configured category is selected once and the remaining slots are filled from the
  configured array. Whatever \<^verbatim>\<open>generateDailyChallenges\<close> returns has exactly three
  challenges whose categories are the selected ones in order, and it does return when
  every configured category has templates in the corpus, the modifier lookup of the
  difficulty is not \<open>undefined\<close> and the history is an array.
\<close>

theorem generateDailyChallenges_three_categories:
  assumes "unit_interval (random s)" and "userPreferences s = VPrefs p"
    and "categories p \<noteq> []" and "distinct (categories p)"
  shows "length (fst (selectCategories (categories p) (random s))) = 3 \<and>
    set (fst (selectCategories (categories p) (random s))) \<subseteq> Some ` set (categories p) \<and>
    distinct (take (min 3 (length (categories p))) (fst (selectCategories (categories p) (random s)))) \<and>
    (3 \<le> length (categories p) \<longrightarrow>
       distinct (fst (selectCategories (categories p) (random s)))) \<and>
    (length (categories p) < 3 \<longrightarrow>
       set (take (length (categories p)) (fst (selectCategories (categories p) (random s)))) =
         Some ` set (categories p)) \<and>
    (\<forall>cs. fst (generateDailyChallenges clk s) = Inr cs \<longrightarrow>
       length cs = 3 \<and>
       map (\<lambda>c. Some (category c)) cs = fst (selectCategories (categories p) (random s)) \<and>
       (3 \<le> length (categories p) \<longrightarrow> distinct (map category cs))) \<and>
    (valid_preferences p \<and> (\<exists>h. challengeHistory s = VChallenges h) \<longrightarrow>
       (\<exists>cs. fst (generateDailyChallenges clk s) = Inr cs \<and> length cs = 3))"
proof -
  let ?sel = "fst (selectCategories (categories p) (random s))"
  note props = selectCategories_props [OF assms(1,3)]
  have len: "length ?sel = 3" by (rule props(1))
  have sub: "set ?sel \<subseteq> Some ` set (categories p)" by (rule props(2))
  have dis: "distinct (take (min 3 (length (categories p))) ?sel)"
    using assms(4) by (rule props(4))
  have all: "distinct ?sel" if "3 \<le> length (categories p)"
    using dis len that by (simp add: min_def)
  have few: "set (take (length (categories p)) ?sel) = Some ` set (categories p)"
    if "length (categories p) < 3"
    using props(5) [OF assms(4)] that by simp
  have res: "length cs = 3 \<and> map (\<lambda>c. Some (category c)) cs = ?sel \<and>
       (3 \<le> length (categories p) \<longrightarrow> distinct (map category cs))"
    if r: "fst (generateDailyChallenges clk s) = Inr cs" for cs
  proof -
    have l: "length cs = 3" and m: "map (\<lambda>c. Some (category c)) cs = ?sel"
      using generateDailyChallenges_result(1,2) [OF assms(1,2,3) r] by simp_all
    have "distinct (map category cs)" if "3 \<le> length (categories p)"
    proof -
      have "distinct (map Some (map category cs))"
        using all [OF that] m [symmetric] by (simp add: comp_def)
      then show ?thesis
        by (rule distinct_map_Some)
    qed
    then show ?thesis
      using l m by simp
  qed
  have ret: "\<exists>cs. fst (generateDailyChallenges clk s) = Inr cs \<and> length cs = 3"
    if v: "valid_preferences p \<and> (\<exists>h. challengeHistory s = VChallenges h)"
  proof -
    obtain cs where r: "fst (generateDailyChallenges clk s) = Inr cs"
      using generateDailyChallenges_returns [OF assms(1,2), of clk] v by auto
    then show ?thesis
      using res [OF r] by auto
  qed
  show ?thesis
    using len sub dis all few res ret by (intro conjI allI impI) simp_all
qed

theorem generateDailyChallenges_three_categories_witness:
  "unit_interval (random (with_preferences ''medium'' [''personal'', ''health'', ''learning''])) \<and>
   distinct [''personal'', ''health'', ''learning''] \<and>
   length (fst (selectCategories [''personal'', ''health'', ''learning'']
      (random (with_preferences ''medium'' [''personal'', ''health'', ''learning''])))) = 3 \<and>
   distinct (fst (selectCategories [''personal'', ''health'', ''learning'']
      (random (with_preferences ''medium'' [''personal'', ''health'', ''learning''])))) \<and>
   (\<exists>cs. fst (generateDailyChallenges sample_clock
            (with_preferences ''medium'' [''personal'', ''health'', ''learning''])) = Inr cs \<and>
      length cs = 3 \<and> distinct (map category cs)) \<and>
   set (take 2 (fst (selectCategories [''health'', ''learning'']
      (random (with_preferences ''medium'' [''health'', ''learning''])))))
     = {Some ''health'', Some ''learning''} \<and>
   (\<exists>cs. fst (generateDailyChallenges sample_clock
            (with_preferences ''medium'' [''health'', ''learning''])) = Inr cs \<and> length cs = 3)"
proof -
  let ?s3 = "with_preferences ''medium'' [''personal'', ''health'', ''learning'']"
  let ?p3 = "\<lparr>difficulty = ''medium'', categories = [''personal'', ''health'', ''learning''],
              notifications = None, reminderTime = None\<rparr>"
  let ?s2 = "with_preferences ''medium'' [''health'', ''learning'']"
  let ?p2 = "\<lparr>difficulty = ''medium'', categories = [''health'', ''learning''],
              notifications = None, reminderTime = None\<rparr>"
  have u3: "unit_interval (random ?s3)" and u2: "unit_interval (random ?s2)"
    by (simp_all add: pref_defs)
  have p3: "userPreferences ?s3 = VPrefs ?p3" and p2: "userPreferences ?s2 = VPrefs ?p2"
    by (simp_all add: pref_defs)
  have n3: "categories ?p3 \<noteq> []" and n2: "categories ?p2 \<noteq> []"
    by simp_all
  have d3: "distinct (categories ?p3)" and d2: "distinct (categories ?p2)"
    by simp_all
  have v3: "valid_preferences ?p3 \<and> (\<exists>h. challengeHistory ?s3 = VChallenges h)"
    and v2: "valid_preferences ?p2 \<and> (\<exists>h. challengeHistory ?s2 = VChallenges h)"
    by (simp_all add: pref_defs)
  note t3 = generateDailyChallenges_three_categories [OF u3 p3 n3 d3, of sample_clock]
  note t2 = generateDailyChallenges_three_categories [OF u2 p2 n2 d2, of sample_clock]
  have a: "length (fst (selectCategories [''personal'', ''health'', ''learning''] (random ?s3))) = 3"
    using t3 by simp
  have b: "distinct (fst (selectCategories [''personal'', ''health'', ''learning''] (random ?s3)))"
    using t3 by simp
  have c: "\<exists>cs. fst (generateDailyChallenges sample_clock ?s3) = Inr cs \<and>
      length cs = 3 \<and> distinct (map category cs)"
    using t3 v3 by auto
  have d: "set (take 2 (fst (selectCategories [''health'', ''learning''] (random ?s2))))
     = {Some ''health'', Some ''learning''}"
    using t2 by (simp add: numeral_2_eq_2)
  have e: "\<exists>cs. fst (generateDailyChallenges sample_clock ?s2) = Inr cs \<and> length cs = 3"
    using t2 v2 by auto
  show ?thesis
    using u3 a b c d e by (intro conjI) simp_all
qed

text \<open>
  Claim C8. Every challenge that \<^verbatim>\<open>generateDailyChallenges\<close> returns carries in
  \<open>estimatedTime\<close>, \<open>effortLevel\<close> and \<open>complexity\<close> the \<open>time\<close>, \<open>effort\<close>
  and \<open>complexity\<close> of what the modifier table gives for the active difficulty: the
  fields of the table's entry when the difficulty has one, so 5, 1, 1 for easy, 15, 2, 2 for
  medium and 30, 3, 3 for hard. A difficulty that names a property inherited by the table
  gives a value without these fields, and the three fields of the challenge are
  \<open>undefined\<close>; with any other difficulty nothing is returned. For a random source in
  \<open>[0, 1)\<close>, categories of the corpus, a difficulty of either kind and an array as
  history, three challenges are returned.
\<close>

theorem generateDailyChallenges_difficulty_modifiers:
  assumes "userPreferences s = VPrefs p"
  shows "(\<forall>cs. fst (generateDailyChallenges clk s) = Inr cs \<longrightarrow>
            (\<forall>c \<in> set cs.
               (\<forall>m. DIFFICULTY_MODIFIERS (difficulty p) = Own m \<longrightarrow>
                  estimatedTime c = Some (time m) \<and> effortLevel c = Some (effort m) \<and>
                  complexity c = Some (modifier_complexity m)) \<and>
               (DIFFICULTY_MODIFIERS (difficulty p) = Inherited \<longrightarrow>
                  estimatedTime c = None \<and> effortLevel c = None \<and> complexity c = None) \<and>
               DIFFICULTY_MODIFIERS (difficulty p) \<noteq> Undefined \<and>
               (difficulty p = ''easy'' \<longrightarrow>
                  estimatedTime c = Some 5 \<and> effortLevel c = Some 1 \<and> complexity c = Some 1) \<and>
               (difficulty p = ''medium'' \<longrightarrow>
                  estimatedTime c = Some 15 \<and> effortLevel c = Some 2 \<and> complexity c = Some 2) \<and>
               (difficulty p = ''hard'' \<longrightarrow>
                  estimatedTime c = Some 30 \<and> effortLevel c = Some 3 \<and> complexity c = Some 3))) \<and>
         (unit_interval (random s) \<and> valid_preferences p \<and>
          (\<exists>h. challengeHistory s = VChallenges h) \<longrightarrow>
            (\<exists>cs. fst (generateDailyChallenges clk s) = Inr cs \<and> length cs = 3))"
proof -
  have each: "(\<forall>m. DIFFICULTY_MODIFIERS (difficulty p) = Own m \<longrightarrow>
                  estimatedTime c = Some (time m) \<and> effortLevel c = Some (effort m) \<and>
                  complexity c = Some (modifier_complexity m)) \<and>
               (DIFFICULTY_MODIFIERS (difficulty p) = Inherited \<longrightarrow>
                  estimatedTime c = None \<and> effortLevel c = None \<and> complexity c = None) \<and>
               DIFFICULTY_MODIFIERS (difficulty p) \<noteq> Undefined \<and>
               (difficulty p = ''easy'' \<longrightarrow>
                  estimatedTime c = Some 5 \<and> effortLevel c = Some 1 \<and> complexity c = Some 1) \<and>
               (difficulty p = ''medium'' \<longrightarrow>
                  estimatedTime c = Some 15 \<and> effortLevel c = Some 2 \<and> complexity c = Some 2) \<and>
               (difficulty p = ''hard'' \<longrightarrow>
                  estimatedTime c = Some 30 \<and> effortLevel c = Some 3 \<and> complexity c = Some 3)"
    if r: "fst (generateDailyChallenges clk s) = Inr cs" and c: "c \<in> set cs" for cs c
  proof -
    have ft: "from_table p c"
      using generateDailyChallenges_table [OF assms r] c by simp
    show ?thesis
      using from_table_cases [OF ft] from_table_values [OF ft] by (intro conjI) simp_all
  qed
  have returns: "\<exists>cs. fst (generateDailyChallenges clk s) = Inr cs \<and> length cs = 3"
    if v: "unit_interval (random s) \<and> valid_preferences p \<and>
      (\<exists>h. challengeHistory s = VChallenges h)"
  proof -
    have ui: "unit_interval (random s)" and ne: "categories p \<noteq> []"
      using v by (simp_all add: valid_preferences_def)
    obtain cs where r: "fst (generateDailyChallenges clk s) = Inr cs"
      using generateDailyChallenges_returns [OF ui assms, of clk] v by auto
    then show ?thesis
      using generateDailyChallenges_result(1) [OF ui assms ne r] by auto
  qed
  show ?thesis
    apply (rule conjI)
     apply (intro allI impI ballI)
     apply (rule each, assumption, assumption)
    apply (rule impI)
    apply (rule returns, assumption)
    done
qed

theorem generateDailyChallenges_difficulty_modifiers_witness:
  "unit_interval (random (with_preferences ''easy'' [''personal'', ''health''])) \<and>
   unit_interval (random (with_preferences ''hard'' [''learning''])) \<and>
   (\<exists>cs. fst (generateDailyChallenges sample_clock (with_preferences ''easy'' [''personal'', ''health''])) = Inr cs \<and>
      length cs = 3 \<and>
      (\<forall>c \<in> set cs. estimatedTime c = Some 5 \<and> effortLevel c = Some 1 \<and> complexity c = Some 1)) \<and>
   (\<exists>cs. fst (generateDailyChallenges sample_clock (with_preferences ''hard'' [''learning''])) = Inr cs \<and>
      length cs = 3 \<and>
      (\<forall>c \<in> set cs. estimatedTime c = Some 30 \<and> effortLevel c = Some 3 \<and> complexity c = Some 3)) \<and>
   DIFFICULTY_MODIFIERS ''constructor'' = Inherited \<and>
   (\<exists>cs. fst (generateDailyChallenges sample_clock (with_preferences ''constructor'' [''health''])) = Inr cs \<and>
      length cs = 3 \<and>
      (\<forall>c \<in> set cs. estimatedTime c = None \<and> effortLevel c = None \<and> complexity c = None))"
proof -
  let ?e = "\<lparr>difficulty = ''easy'', categories = [''personal'', ''health''], notifications = None,
             reminderTime = None\<rparr>"
  let ?h = "\<lparr>difficulty = ''hard'', categories = [''learning''], notifications = None,
             reminderTime = None\<rparr>"
  let ?c = "\<lparr>difficulty = ''constructor'', categories = [''health''], notifications = None,
             reminderTime = None\<rparr>"
  have ue: "unit_interval (random (with_preferences ''easy'' [''personal'', ''health'']))"
    and uh: "unit_interval (random (with_preferences ''hard'' [''learning'']))"
    and uc: "unit_interval (random (with_preferences ''constructor'' [''health'']))"
    by (simp_all add: pref_defs)
  have pe: "userPreferences (with_preferences ''easy'' [''personal'', ''health'']) = VPrefs ?e"
    and ph: "userPreferences (with_preferences ''hard'' [''learning'']) = VPrefs ?h"
    and pc: "userPreferences (with_preferences ''constructor'' [''health'']) = VPrefs ?c"
    by (simp_all add: pref_defs)
  have ve: "valid_preferences ?e \<and>
      (\<exists>h. challengeHistory (with_preferences ''easy'' [''personal'', ''health'']) = VChallenges h)"
    and vh: "valid_preferences ?h \<and>
      (\<exists>h. challengeHistory (with_preferences ''hard'' [''learning'']) = VChallenges h)"
    and vc: "valid_preferences ?c \<and>
      (\<exists>h. challengeHistory (with_preferences ''constructor'' [''health'']) = VChallenges h)"
    by (simp_all add: pref_defs)
  have ic: "DIFFICULTY_MODIFIERS ''constructor'' = Inherited"
    by (simp add: pref_defs)
  have e: "\<exists>cs. fst (generateDailyChallenges sample_clock (with_preferences ''easy'' [''personal'', ''health''])) = Inr cs \<and>
      length cs = 3 \<and>
      (\<forall>c \<in> set cs. estimatedTime c = Some 5 \<and> effortLevel c = Some 1 \<and> complexity c = Some 1)"
    using generateDailyChallenges_difficulty_modifiers [OF pe, of sample_clock] ue ve by auto
  have h: "\<exists>cs. fst (generateDailyChallenges sample_clock (with_preferences ''hard'' [''learning''])) = Inr cs \<and>
      length cs = 3 \<and>
      (\<forall>c \<in> set cs. estimatedTime c = Some 30 \<and> effortLevel c = Some 3 \<and> complexity c = Some 3)"
    using generateDailyChallenges_difficulty_modifiers [OF ph, of sample_clock] uh vh by auto
  have c: "\<exists>cs. fst (generateDailyChallenges sample_clock (with_preferences ''constructor'' [''health''])) = Inr cs \<and>
      length cs = 3 \<and>
      (\<forall>c \<in> set cs. estimatedTime c = None \<and> effortLevel c = None \<and> complexity c = None)"
    using generateDailyChallenges_difficulty_modifiers [OF pc, of sample_clock] uc vc ic by auto
  show ?thesis
    using ue uh e h ic c by (intro conjI)
qed

section \<open>Daily cache\<close>

lemma getTodaysChallenges_cached_run:
  assumes "\<not> faults s 0" and "items s (daily_key clk) = Some (Json v)"
  shows "getTodaysChallenges clk s = (Inr v, next_call s)"
  using assms by (simp add: getTodaysChallenges_def comp_defs)

lemma daily_key_not_history: "daily_key clk \<noteq> ''challengeHistory''"
  by (simp add: daily_key_def)

lemma saveChallenges_stores:
  assumes "\<not> faults s 0"
  shows "items (snd (saveChallenges clk cs s)) (daily_key clk) = Some (Json (VChallenges cs))"
  using assms daily_key_not_history [of clk]
  by (auto simp: saveChallenges_def push_history_def the_history_def comp_defs
      split: jsval.splits)

lemma saveChallenges_faults:
  "no_faults s \<Longrightarrow> no_faults (snd (saveChallenges clk cs s))"
  by (auto simp: saveChallenges_def push_history_def the_history_def comp_defs no_faults_def
      split: jsval.splits)

lemma saveChallenges_returns: "\<exists>b. fst (saveChallenges clk cs s) = Inr b"
  by (auto simp: saveChallenges_def push_history_def the_history_def comp_defs
      split: jsval.splits)

lemma getTodaysChallenges_generate_run:
  assumes "\<not> faults s 0" and "\<not> present (items s (daily_key clk))"
  shows "getTodaysChallenges clk s =
    (case generateDailyChallenges clk (next_call s) of
       (Inl e, s2) \<Rightarrow> (Inr (VChallenges []), s2)
     | (Inr new, s2) \<Rightarrow> (Inr (VChallenges new), snd (saveChallenges clk new s2)))"
proof (cases "generateDailyChallenges clk (next_call s)")
  case (Pair r s2)
  show ?thesis
  proof (cases r)
    case (Inl e)
    then show ?thesis
      using assms Pair
      by (simp add: getTodaysChallenges_def try_catch_def bnd_def getItem_def ret_def)
  next
    case (Inr new)
    obtain b where "fst (saveChallenges clk new s2) = Inr b"
      using saveChallenges_returns by blast
    then obtain s3 where "saveChallenges clk new s2 = (Inr b, s3)"
      by (cases "saveChallenges clk new s2") simp
    then show ?thesis
      using assms Pair Inr
      by (simp add: getTodaysChallenges_def try_catch_def bnd_def getItem_def ret_def)
  qed
qed

lemma no_faults_next_call: "no_faults s \<Longrightarrow> no_faults (next_call s)"
  by (simp add: no_faults_def next_call_def)

lemma getTodaysChallenges_caches:
  assumes nf: "no_faults s" and r: "fst (getTodaysChallenges clk s) = Inr (VChallenges cs)"
    and ne: "cs \<noteq> []"
  shows "items (snd (getTodaysChallenges clk s)) (daily_key clk) = Some (Json (VChallenges cs)) \<and>
    no_faults (snd (getTodaysChallenges clk s))"
proof (cases "present (items s (daily_key clk))")
  case True
  then obtain t where t: "items s (daily_key clk) = Some t" "t \<noteq> Empty_string"
    by (cases "items s (daily_key clk)" rule: present.cases) auto
  have f0: "\<not> faults s 0"
    using nf by (simp add: no_faults_def)
  show ?thesis
  proof (cases t)
    case (Json v)
    then have run: "getTodaysChallenges clk s = (Inr v, next_call s)"
      using getTodaysChallenges_cached_run [OF f0] t(1) by simp
    then have "v = VChallenges cs"
      using r by simp
    then show ?thesis
      using run t(1) Json nf by (simp add: no_faults_next_call) (simp add: next_call_def)
  next
    case Empty_string
    then show ?thesis using t(2) by simp
  next
    case Malformed
    then have "getTodaysChallenges clk s = (Inr (VChallenges []), next_call s)"
      using f0 t(1) by (simp add: getTodaysChallenges_def comp_defs)
    then show ?thesis
      using r ne by simp
  qed
next
  case False
  have f0: "\<not> faults s 0"
    using nf by (simp add: no_faults_def)
  note run = getTodaysChallenges_generate_run [OF f0 False]
  obtain g s2 where gen: "generateDailyChallenges clk (next_call s) = (g, s2)"
    by (cases "generateDailyChallenges clk (next_call s)") auto
  show ?thesis
  proof (cases g)
    case (Inl e)
    then show ?thesis
      using run gen r ne by simp
  next
    case (Inr new)
    then have eq: "getTodaysChallenges clk s = (Inr (VChallenges new), snd (saveChallenges clk new s2))"
      using run gen by simp
    then have new: "new = cs"
      using r by simp
    have "same_store (next_call s) s2"
      using generateDailyChallenges_Inr gen Inr by blast
    then have "faults s2 = faults (next_call s)"
      by (simp add: same_store_def)
    then have nf2: "no_faults s2"
      using no_faults_next_call [OF nf] by (simp add: no_faults_def)
    then have "\<not> faults s2 0"
      by (simp add: no_faults_def)
    then show ?thesis
      using eq new saveChallenges_stores [of s2 clk cs] saveChallenges_faults [OF nf2, of clk cs]
      by simp
  qed
qed

text \<open>
  Claim C1. When a batch is stored under the day's key and the read of it succeeds,
  \<^verbatim>\<open>getTodaysChallenges\<close> returns exactly that batch and generates nothing: the persisted
  items (the history among them), the generator's history and the random source are as
  before the call. Hence with a storage that does not fail, whenever a call on day \<open>D\<close>
  yields a non-empty batch, a second call on day \<open>D\<close> returns the same batch and leaves
  the persisted items and the generator's history as the first call left them.
\<close>

theorem getTodaysChallenges_idempotent:
  "(\<not> faults s 0 \<and> items s (daily_key clk) = Some (Json (VChallenges cs)) \<longrightarrow>
      fst (getTodaysChallenges clk s) = Inr (VChallenges cs) \<and>
      items (snd (getTodaysChallenges clk s)) = items s \<and>
      challengeHistory (snd (getTodaysChallenges clk s)) = challengeHistory s \<and>
      random (snd (getTodaysChallenges clk s)) = random s) \<and>
   (no_faults s \<and> fst (getTodaysChallenges clk s) = Inr (VChallenges cs) \<and> cs \<noteq> [] \<and>
    daily_key clk' = daily_key clk \<longrightarrow>
      fst (getTodaysChallenges clk' (snd (getTodaysChallenges clk s))) = Inr (VChallenges cs) \<and>
      items (snd (getTodaysChallenges clk' (snd (getTodaysChallenges clk s)))) =
        items (snd (getTodaysChallenges clk s)) \<and>
      challengeHistory (snd (getTodaysChallenges clk' (snd (getTodaysChallenges clk s)))) =
        challengeHistory (snd (getTodaysChallenges clk s)) \<and>
      random (snd (getTodaysChallenges clk' (snd (getTodaysChallenges clk s)))) =
        random (snd (getTodaysChallenges clk s)))"
proof (intro conjI impI)
  assume a: "\<not> faults s 0 \<and> items s (daily_key clk) = Some (Json (VChallenges cs))"
  then have run: "getTodaysChallenges clk s = (Inr (VChallenges cs), next_call s)"
    by (simp add: getTodaysChallenges_cached_run)
  show "fst (getTodaysChallenges clk s) = Inr (VChallenges cs)"
    and "items (snd (getTodaysChallenges clk s)) = items s"
    and "challengeHistory (snd (getTodaysChallenges clk s)) = challengeHistory s"
    and "random (snd (getTodaysChallenges clk s)) = random s"
    by (simp_all add: run next_call_def)
next
  let ?s1 = "snd (getTodaysChallenges clk s)"
  assume b: "no_faults s \<and> fst (getTodaysChallenges clk s) = Inr (VChallenges cs) \<and> cs \<noteq> [] \<and>
    daily_key clk' = daily_key clk"
  then have "items ?s1 (daily_key clk) = Some (Json (VChallenges cs)) \<and> no_faults ?s1"
    using getTodaysChallenges_caches [of s clk cs] by simp
  then have "items ?s1 (daily_key clk') = Some (Json (VChallenges cs))" and "\<not> faults ?s1 0"
    using b by (simp_all add: no_faults_def)
  then have run: "getTodaysChallenges clk' ?s1 = (Inr (VChallenges cs), next_call ?s1)"
    by (simp add: getTodaysChallenges_cached_run)
  show "fst (getTodaysChallenges clk' ?s1) = Inr (VChallenges cs)"
    and "items (snd (getTodaysChallenges clk' ?s1)) = items ?s1"
    and "challengeHistory (snd (getTodaysChallenges clk' ?s1)) = challengeHistory ?s1"
    and "random (snd (getTodaysChallenges clk' ?s1)) = random ?s1"
    by (simp_all add: run next_call_def)
qed

theorem getTodaysChallenges_idempotent_witness:
  "\<not> faults (with_items [(''dailyChallenges_Mon Jan 01 2024'', Json (VChallenges [sample_challenge 0]))]) 0 \<and>
   items (with_items [(''dailyChallenges_Mon Jan 01 2024'', Json (VChallenges [sample_challenge 0]))])
     (daily_key sample_clock) = Some (Json (VChallenges [sample_challenge 0])) \<and>
   fst (getTodaysChallenges sample_clock
     (with_items [(''dailyChallenges_Mon Jan 01 2024'', Json (VChallenges [sample_challenge 0]))])) =
     Inr (VChallenges [sample_challenge 0]) \<and>
   no_faults (with_preferences ''medium'' [''personal'', ''health'', ''learning'']) \<and>
   (\<exists>cs. length cs = 3 \<and>
      fst (getTodaysChallenges sample_clock
        (with_preferences ''medium'' [''personal'', ''health'', ''learning''])) = Inr (VChallenges cs) \<and>
      fst (getTodaysChallenges sample_clock (snd (getTodaysChallenges sample_clock
        (with_preferences ''medium'' [''personal'', ''health'', ''learning''])))) = Inr (VChallenges cs) \<and>
      items (snd (getTodaysChallenges sample_clock (snd (getTodaysChallenges sample_clock
        (with_preferences ''medium'' [''personal'', ''health'', ''learning''])))))
        = items (snd (getTodaysChallenges sample_clock
        (with_preferences ''medium'' [''personal'', ''health'', ''learning'']))))"
proof -
  let ?c = "with_items [(''dailyChallenges_Mon Jan 01 2024'', Json (VChallenges [sample_challenge 0]))]"
  let ?s = "with_preferences ''medium'' [''personal'', ''health'', ''learning'']"
  let ?p = "\<lparr>difficulty = ''medium'', categories = [''personal'', ''health'', ''learning''],
             notifications = None, reminderTime = None\<rparr>"
  have key: "daily_key sample_clock = ''dailyChallenges_Mon Jan 01 2024''"
    by (simp add: daily_key_def sample_defs)
  have c0: "\<not> faults ?c 0"
    and c1: "items ?c (daily_key sample_clock) = Some (Json (VChallenges [sample_challenge 0]))"
    by (simp_all add: key with_items_def fresh_state_def)
  have nf: "no_faults ?s"
    by (simp add: no_faults_def pref_defs)
  have f0: "\<not> faults ?s 0" and np: "\<not> present (items ?s (daily_key sample_clock))"
    by (simp_all add: pref_defs)
  have ui: "unit_interval (random (next_call ?s))"
    and up: "userPreferences (next_call ?s) = VPrefs ?p"
    and hs: "\<exists>h. challengeHistory (next_call ?s) = VChallenges h"
    and vp: "valid_preferences ?p"
    and ne: "categories ?p \<noteq> []"
    by (simp_all add: pref_defs next_call_def)
  obtain cs where g: "fst (generateDailyChallenges sample_clock (next_call ?s)) = Inr cs"
    using generateDailyChallenges_returns [OF ui up vp hs, of sample_clock] by (elim exE)
  have len: "length cs = 3"
    using generateDailyChallenges_result(1) [OF ui up ne g] .
  have first: "fst (getTodaysChallenges sample_clock ?s) = Inr (VChallenges cs)"
    using g unfolding getTodaysChallenges_generate_run [OF f0 np]
    by (cases "generateDailyChallenges sample_clock (next_call ?s)") auto
  have "cs \<noteq> []"
    using len by auto
  then have second:
    "fst (getTodaysChallenges sample_clock (snd (getTodaysChallenges sample_clock ?s))) = Inr (VChallenges cs) \<and>
     items (snd (getTodaysChallenges sample_clock (snd (getTodaysChallenges sample_clock ?s)))) =
       items (snd (getTodaysChallenges sample_clock ?s))"
    using getTodaysChallenges_idempotent [of ?s sample_clock cs sample_clock] nf first by simp
  have cached: "fst (getTodaysChallenges sample_clock ?c) = Inr (VChallenges [sample_challenge 0])"
    using getTodaysChallenges_idempotent [of ?c sample_clock "[sample_challenge 0]" sample_clock] c0 c1 by simp
  show ?thesis
    using c0 c1 cached nf len first second by (intro conjI exI [of _ cs]) simp_all
qed

section \<open>Progress tracker\<close>





text \<open>
  Claim C10. With a stored profile that is read successfully,
  \<^verbatim>\<open>updateUserProgress(challengeId, false)\<close> returns \<open>true\<close> and leaves the persisted
  items, hence the profile with its log, total and streak, as they were. With no profile
  stored the call returns \<open>false\<close> for any arguments and the persisted items are unchanged.
\<close>

theorem updateUserProgress_not_completed:
  "(\<not> faults s 0 \<and> items s ''userData'' = Some (Json (VUser u)) \<longrightarrow>
      fst (updateUserProgress clk challengeId False s) = Inr True \<and>
      items (snd (updateUserProgress clk challengeId False s)) = items s \<and>
      items (snd (updateUserProgress clk challengeId False s)) ''userData'' = Some (Json (VUser u)))
   \<and> (items s ''userData'' = None \<longrightarrow>
      fst (updateUserProgress clk challengeId flag s) = Inr False \<and>
      items (snd (updateUserProgress clk challengeId flag s)) = items s)"
proof (intro conjI impI)
  assume a: "\<not> faults s 0 \<and> items s ''userData'' = Some (Json (VUser u))"
  then have l: "loadUserData s = (Inr (VUser u), next_call s)"
    by (simp add: loadUserData_stored)
  have run: "updateUserProgress clk challengeId False s =
      (Inr True, snd (saveUserData (VUser u) (next_call s)))"
    by (simp add: updateUserProgress_def bnd_def try_catch_def ret_def l saveUserData_run)
  show "fst (updateUserProgress clk challengeId False s) = Inr True"
    by (simp add: run)
  have "(items s)(''userData'' \<mapsto> Json (VUser u)) = items s"
    using a by (simp add: map_upd_triv)
  then show i: "items (snd (updateUserProgress clk challengeId False s)) = items s"
    by (simp add: run saveUserData_run next_call_def)
  show "items (snd (updateUserProgress clk challengeId False s)) ''userData'' = Some (Json (VUser u))"
    using a i by simp
next
  assume n: "items s ''userData'' = None"
  have run: "updateUserProgress clk challengeId flag s = (Inr False, next_call s)"
    by (simp add: updateUserProgress_def bnd_def try_catch_def ret_def loadUserData_absent [OF n])
  show "fst (updateUserProgress clk challengeId flag s) = Inr False"
    by (simp add: run)
  show "items (snd (updateUserProgress clk challengeId flag s)) = items s"
    by (simp add: run next_call_def)
qed

theorem updateUserProgress_not_completed_witness:
  "\<not> faults (with_profile (sample_user [])) 0 \<and>
   items (with_profile (sample_user [])) ''userData'' = Some (Json (VUser (sample_user []))) \<and>
   fst (updateUserProgress sample_clock ''b'' False (with_profile (sample_user []))) = Inr True \<and>
   items (snd (updateUserProgress sample_clock ''b'' False (with_profile (sample_user [])))) =
     items (with_profile (sample_user [])) \<and>
   items fresh_state ''userData'' = None \<and>
   fst (updateUserProgress sample_clock ''b'' True fresh_state) = Inr False \<and>
   items (snd (updateUserProgress sample_clock ''b'' True fresh_state)) = items fresh_state"
  using updateUserProgress_not_completed [of "with_profile (sample_user [])" "sample_user []" sample_clock "''b''" True]
    updateUserProgress_not_completed [of fresh_state "sample_user []" sample_clock "''b''" True]
  by (simp add: sample_defs)

section \<open>History log and bulk clear\<close>

lemma keep_last_100_length: "length (keep_last_100 xs) \<le> 100"
  by (simp add: keep_last_100_def)

lemma keep_last_100_suffix: "keep_last_100 xs = drop (length xs - 100) xs"
  by (simp add: keep_last_100_def)

lemma saveChallengeHistory_run:
  assumes "\<not> faults s 0" and "\<not> faults s 1"
    and "items s ''challengeHistory'' = Some (Json (VChallenges old))"
  shows "fst (saveChallengeHistory new s) = Inr True \<and>
    items (snd (saveChallengeHistory new s)) ''challengeHistory'' =
      Some (Json (VChallenges (drop (length (old @ new) - 100) (old @ new))))"
  using assms
  by (simp add: saveChallengeHistory_def loadChallengeHistory_def spread_def comp_defs
      keep_last_100_suffix)

text \<open>
  Claim C2. \<^verbatim>\<open>saveChallengeHistory\<close> keeps the last 100 entries in order (the three
  lemmas above), but \<^verbatim>\<open>saveChallenges\<close> writes the same key with no cap: a generator
  initialised from a stored history of 99 entries that saves a batch of 3 leaves 102
  entries under \<^verbatim>\<open>challengeHistory\<close>.
\<close>

theorem saveChallenges_exceeds_100:
  "fst (bnd initialize (\<lambda>_. saveChallenges sample_clock (map sample_challenge [99..<102]))
      (with_items [(''challengeHistory'', Json (VChallenges (map sample_challenge [0..<99])))])) = Inr True \<and>
   items (snd (bnd initialize (\<lambda>_. saveChallenges sample_clock (map sample_challenge [99..<102]))
      (with_items [(''challengeHistory'', Json (VChallenges (map sample_challenge [0..<99])))])))
     ''challengeHistory'' = Some (Json (VChallenges (map sample_challenge [0..<102]))) \<and>
   length (map sample_challenge [0..<102]) = 102"
proof -
  have "map sample_challenge [0..<99] @ map sample_challenge [99..<102] = map sample_challenge [0..<102]"
    unfolding map_append [symmetric]
    by (simp del: upt_rec_numeral add: upt_add_eq_append [of 0 99 3, simplified, symmetric])
  then show ?thesis
    by (simp del: upt_rec_numeral add: initialize_def gen_loadUserPreferences_def
        gen_loadChallengeHistory_def saveChallenges_def push_history_def the_history_def
        comp_defs with_items_def fresh_state_def daily_key_def)
qed

lemma clearAllData_frame:
  "k \<notin> {''userData'', ''challengeHistory'', ''userPreferences'', ''dailyChallenges''} \<Longrightarrow>
   items (snd (clearAllData s)) k = items s k"
  by (simp add: clearAllData_def multiRemove_def try_catch_def bnd_def ret_def next_call_def)

lemma clearAllData_daily_key:
  "items (snd (clearAllData s)) (daily_key clk) = items s (daily_key clk)"
  by (rule clearAllData_frame) (simp add: daily_key_def)

text \<open>
  Claim C7. \<^verbatim>\<open>clearAllData\<close> removes the keys \<^verbatim>\<open>userData\<close>,
  \<^verbatim>\<open>challengeHistory\<close>, \<^verbatim>\<open>userPreferences\<close> and the literal key
  \<^verbatim>\<open>dailyChallenges\<close>; a batch stored under a per-day key
  \<^verbatim>\<open>dailyChallenges_<day>\<close> is still there after the call.
\<close>

theorem clearAllData_keeps_daily_batch:
  "fst (clearAllData (with_items
      [(''userData'', Json (VUser (sample_user []))),
       (''dailyChallenges_Mon Jan 01 2024'', Json (VChallenges [sample_challenge 0]))])) = Inr True \<and>
   items (snd (clearAllData (with_items
      [(''userData'', Json (VUser (sample_user []))),
       (''dailyChallenges_Mon Jan 01 2024'', Json (VChallenges [sample_challenge 0]))])))
     ''userData'' = None \<and>
   items (snd (clearAllData (with_items
      [(''userData'', Json (VUser (sample_user []))),
       (''dailyChallenges_Mon Jan 01 2024'', Json (VChallenges [sample_challenge 0]))])))
     ''dailyChallenges_Mon Jan 01 2024'' = Some (Json (VChallenges [sample_challenge 0]))"
  by (simp add: clearAllData_def multiRemove_def try_catch_def bnd_def ret_def next_call_def
      with_items_def fresh_state_def)

section \<open>Error boundaries\<close>

lemma try_catch_returns:
  "\<exists>r. fst (try_catch m (\<lambda>error. ret x) s) = Inr r"
  by (cases "m s" rule: prod.exhaust [case_names Pair]) (auto simp: try_catch_def ret_def split: sum.splits)

lemma try_catch_fallback:
  "fst (m s) = Inl e \<Longrightarrow> fst (try_catch m (\<lambda>error. ret x) s) = Inr x"
  by (cases "m s") (auto simp: try_catch_def ret_def)

lemma initialize_returns: "\<exists>r. fst (initialize s) = Inr r"
proof -
  obtain r s1 where 1: "gen_loadUserPreferences s = (Inr r, s1)"
    using try_catch_returns [of _ "()" s]
    unfolding gen_loadUserPreferences_def
    by (metis prod.collapse)
  show ?thesis
    unfolding initialize_def bnd_def 1
    using try_catch_returns [of _ "()" s1]
    by (simp add: gen_loadChallengeHistory_def)
qed

lemma getItem_fails: "faults s 0 \<Longrightarrow> fst (bnd (getItem key) f s) = Inl StorageError"
  by (simp add: bnd_def getItem_def)

lemma setItem_fails: "faults s 0 \<Longrightarrow> fst (bnd (setItem key v) f s) = Inl StorageError"
  by (simp add: bnd_def setItem_def)

lemma multiRemove_fails: "faults s 0 \<Longrightarrow> fst (bnd (multiRemove keys) f s) = Inl StorageError"
  by (simp add: bnd_def multiRemove_def)

lemma loadUserData_fails: "faults s 0 \<Longrightarrow> loadUserData s = (Inr (VBool False), next_call s)"
  by (simp add: loadUserData_def try_catch_def bnd_def getItem_def ret_def)

lemma loadChallengeHistory_fails:
  "faults s 0 \<Longrightarrow> loadChallengeHistory s = (Inr (VChallenges []), next_call s)"
  by (simp add: loadChallengeHistory_def try_catch_def bnd_def getItem_def ret_def)

lemma loadUserPreferences_fails:
  "faults s 0 \<Longrightarrow> loadUserPreferences s = (Inr VNull, next_call s)"
  by (simp add: loadUserPreferences_def try_catch_def bnd_def getItem_def ret_def)

lemma updateUserProgress_fails:
  "faults s 0 \<Longrightarrow> fst (updateUserProgress clk challengeId flag s) = Inr False"
  by (simp add: updateUserProgress_def try_catch_def bnd_def ret_def loadUserData_fails)

lemma initialize_fails:
  "faults s 0 \<Longrightarrow> userPreferences (snd (initializeAIChallenges s)) = userPreferences s"
  by (auto simp: initializeAIChallenges_def initialize_def gen_loadUserPreferences_def
      gen_loadChallengeHistory_def try_catch_def bnd_def getItem_def ret_def next_call_def
      throw_def parse_or_def split: sum.splits prod.splits option.splits if_splits)

lemma exportUserData_fails:
  "faults s 0 \<Longrightarrow>
   \<exists>snap. fst (exportUserData clk s) = Inr (Some snap) \<and> export_userData snap = VBool False"
proof -
  assume f: "faults s 0"
  obtain h s2 where h: "loadChallengeHistory (next_call s) = (Inr h, s2)"
    using try_catch_returns [of _ "VChallenges []" "next_call s"]
    unfolding loadChallengeHistory_def by (metis prod.collapse)
  obtain p s3 where p: "loadUserPreferences s2 = (Inr p, s3)"
    using try_catch_returns [of _ VNull s2]
    unfolding loadUserPreferences_def by (metis prod.collapse)
  show ?thesis
    by (simp add: exportUserData_def try_catch_def bnd_def ret_def loadUserData_fails [OF f] h p)
qed

text \<open>
  Claim C6, as stated, fails for two of the listed operations. After an initialisation
  whose read of the preferences failed, the generator has no preferences and the exported
  \<^verbatim>\<open>generateDailyChallenges\<close>, which has no error boundary, raises a type error to its
  caller. With every read failing, \<^verbatim>\<open>exportUserData\<close> returns a snapshot object holding
  the fallbacks of its three readers, not \<open>null\<close>.
\<close>

theorem generateDailyChallenges_throws_after_failed_read:
  "fst (generateDailyChallenges sample_clock
      (snd (initializeAIChallenges (constructor first_call_fails)))) = Inl TypeError \<and>
   fst (exportUserData sample_clock storage_down) =
     Inr (Some \<lparr>export_userData = VBool False, export_challengeHistory = VChallenges [],
            export_preferences = VNull, exportDate = 1704110400000, version = ''1.0.0''\<rparr>)"
  by (simp add: generateDailyChallenges_def the_preferences_def initializeAIChallenges_def
      initialize_def gen_loadUserPreferences_def gen_loadChallengeHistory_def constructor_def
      first_call_fails_def storage_down_def fresh_state_def exportUserData_def loadUserData_def
      loadChallengeHistory_def loadUserPreferences_def comp_defs sample_clock_def)

text \<open>
  Claim C6, amended. Whatever is stored and whichever storage calls fail, each operation
  that accesses storage completes without raising: \<^verbatim>\<open>initializeAIChallenges\<close>,
  \<^verbatim>\<open>getTodaysChallenges\<close>, \<^verbatim>\<open>saveChallenges\<close>, the loaders and savers of the
  profile, the preferences and the history, \<^verbatim>\<open>updateUserProgress\<close>,
  \<^verbatim>\<open>markChallengeCompleted\<close>, \<^verbatim>\<open>clearAllData\<close> and \<^verbatim>\<open>exportUserData\<close>. When the
  first storage call of the operation fails, \<^verbatim>\<open>getTodaysChallenges\<close> returns the empty
  array, \<^verbatim>\<open>saveChallenges\<close>, \<^verbatim>\<open>updateUserProgress\<close> and \<^verbatim>\<open>clearAllData\<close> return
  \<open>false\<close>, \<^verbatim>\<open>loadUserData\<close> returns \<open>false\<close>, \<^verbatim>\<open>loadUserPreferences\<close> returns
  \<open>null\<close>, \<^verbatim>\<open>initializeAIChallenges\<close> leaves the generator's preferences as they
  were, and \<^verbatim>\<open>exportUserData\<close> returns a snapshot whose profile field is \<open>false\<close>.
\<close>

theorem storage_failures_absorbed:
  "(\<exists>r. fst (initializeAIChallenges s) = Inr r) \<and>
   (\<exists>r. fst (getTodaysChallenges clk s) = Inr r) \<and>
   (\<exists>r. fst (saveChallenges clk cs s) = Inr r) \<and>
   (\<exists>r. fst (loadUserData s) = Inr r) \<and>
   (\<exists>r. fst (saveUserData v s) = Inr r) \<and>
   (\<exists>r. fst (updateUserProgress clk challengeId flag s) = Inr r) \<and>
   (\<exists>r. fst (loadUserPreferences s) = Inr r) \<and>
   (\<exists>r. fst (saveUserPreferences v s) = Inr r) \<and>
   (\<exists>r. fst (loadChallengeHistory s) = Inr r) \<and>
   (\<exists>r. fst (saveChallengeHistory cs s) = Inr r) \<and>
   (\<exists>r. fst (markChallengeCompleted clk challengeId s) = Inr r) \<and>
   (\<exists>r. fst (clearAllData s) = Inr r) \<and>
   (\<exists>r. fst (exportUserData clk s) = Inr r) \<and>
   (faults s 0 \<longrightarrow>
      fst (getTodaysChallenges clk s) = Inr (VChallenges []) \<and>
      fst (saveChallenges clk cs s) = Inr False \<and>
      fst (loadUserData s) = Inr (VBool False) \<and>
      fst (updateUserProgress clk challengeId flag s) = Inr False \<and>
      fst (loadUserPreferences s) = Inr VNull \<and>
      fst (clearAllData s) = Inr False \<and>
      userPreferences (snd (initializeAIChallenges s)) = userPreferences s \<and>
      (\<exists>snap. fst (exportUserData clk s) = Inr (Some snap) \<and>
         export_userData snap = VBool False))"
proof (intro conjI impI)
  show "\<exists>r. fst (initializeAIChallenges s) = Inr r"
    unfolding initializeAIChallenges_def by (rule initialize_returns)
  show "\<exists>r. fst (getTodaysChallenges clk s) = Inr r"
    unfolding getTodaysChallenges_def by (rule try_catch_returns)
  show "\<exists>r. fst (saveChallenges clk cs s) = Inr r"
    unfolding saveChallenges_def by (rule try_catch_returns)
  show "\<exists>r. fst (loadUserData s) = Inr r"
    unfolding loadUserData_def by (rule try_catch_returns)
  show "\<exists>r. fst (saveUserData v s) = Inr r"
    unfolding saveUserData_def by (rule try_catch_returns)
  show "\<exists>r. fst (updateUserProgress clk challengeId flag s) = Inr r"
    unfolding updateUserProgress_def by (rule try_catch_returns)
  show "\<exists>r. fst (loadUserPreferences s) = Inr r"
    unfolding loadUserPreferences_def by (rule try_catch_returns)
  show "\<exists>r. fst (saveUserPreferences v s) = Inr r"
    unfolding saveUserPreferences_def by (rule try_catch_returns)
  show "\<exists>r. fst (loadChallengeHistory s) = Inr r"
    unfolding loadChallengeHistory_def by (rule try_catch_returns)
  show "\<exists>r. fst (saveChallengeHistory cs s) = Inr r"
    unfolding saveChallengeHistory_def by (rule try_catch_returns)
  show "\<exists>r. fst (markChallengeCompleted clk challengeId s) = Inr r"
    unfolding markChallengeCompleted_def by (rule try_catch_returns)
  show "\<exists>r. fst (clearAllData s) = Inr r"
    unfolding clearAllData_def by (rule try_catch_returns)
  show "\<exists>r. fst (exportUserData clk s) = Inr r"
    unfolding exportUserData_def by (rule try_catch_returns)
next
  assume f: "faults s 0"
  show "fst (getTodaysChallenges clk s) = Inr (VChallenges [])"
    unfolding getTodaysChallenges_def
    by (rule try_catch_fallback) (rule getItem_fails [OF f])
  show "fst (saveChallenges clk cs s) = Inr False"
    unfolding saveChallenges_def
    by (rule try_catch_fallback) (rule setItem_fails [OF f])
  show "fst (loadUserData s) = Inr (VBool False)"
    by (simp add: loadUserData_fails [OF f])
  show "fst (updateUserProgress clk challengeId flag s) = Inr False"
    by (rule updateUserProgress_fails [OF f])
  show "fst (loadUserPreferences s) = Inr VNull"
    by (simp add: loadUserPreferences_fails [OF f])
  show "fst (clearAllData s) = Inr False"
    unfolding clearAllData_def
    by (rule try_catch_fallback) (rule multiRemove_fails [OF f])
  show "userPreferences (snd (initializeAIChallenges s)) = userPreferences s"
    by (rule initialize_fails [OF f])
  show "\<exists>snap. fst (exportUserData clk s) = Inr (Some snap) \<and> export_userData snap = VBool False"
    by (rule exportUserData_fails [OF f])
qed

theorem storage_failures_absorbed_witness:
  "faults storage_down 0 \<and>
   fst (getTodaysChallenges sample_clock storage_down) = Inr (VChallenges []) \<and>
   fst (saveChallenges sample_clock [sample_challenge 0] storage_down) = Inr False \<and>
   fst (loadUserData storage_down) = Inr (VBool False) \<and>
   fst (updateUserProgress sample_clock ''a'' True storage_down) = Inr False \<and>
   fst (loadUserPreferences storage_down) = Inr VNull \<and>
   fst (clearAllData storage_down) = Inr False"
  using storage_failures_absorbed [of storage_down sample_clock "[sample_challenge 0]" VNull "''a''" True]
  by (simp add: storage_down_def fresh_state_def)

end
